theory Spec2Isabelle
  imports Main "HOL-Library.AList"
begin

section \<open>JavaScript values\<close>

text \<open>
  The values that the state store and the handlers pass around: \<open>undefined\<close>, \<open>null\<close>,
  booleans, numbers, strings, arrays and plain objects. Numbers are integers here (result codes,
  ports, time-outs); \<open>NaN\<close> only arises as an intermediate result and is the \<open>None\<close> of
  \<open>number\<close> below. A plain object is its list of own properties in insertion order; looking a
  key up is \<open>map_of\<close>, assigning a property is \<open>AList.update\<close> (in place when the key is there,
  appended otherwise), \<open>delete\<close> is \<open>AList.delete\<close>. A read under a key that the object does
  not own goes on to \<open>Object.prototype\<close>. The loading code and the handlers read under fixed
  property names that \<open>Object.prototype\<close> does not have and under keys taken from
  \<open>Object.keys\<close>, so \<open>map_of\<close> is the whole read there. The task table of the store is read
  under identifiers that callers supply; the inherited properties are part of its model.
\<close>

datatype jsval =
    JUndefined
  | JNull
  | JBool bool
  | JNum int
  | JStr string
  | JArr "jsval list"
  | JObj "(string \<times> jsval) list"

text \<open>What \<open>if (v)\<close>, \<open>!v\<close> and \<open>v || d\<close> test.\<close>

fun truthy :: "jsval \<Rightarrow> bool" where
  "truthy JUndefined = False"
| "truthy JNull = False"
| "truthy (JBool b) = b"
| "truthy (JNum n) = (n \<noteq> 0)"
| "truthy (JStr s) = (s \<noteq> [])"
| "truthy (JArr xs) = True"
| "truthy (JObj kvs) = True"

text \<open>
  What the source can throw: \<open>new Error(msg)\<close>, and the engine's own \<open>TypeError\<close> (a property
  of \<open>undefined\<close> or \<open>null\<close>, a property assigned on a primitive in strict mode) and
  \<open>SyntaxError\<close> (\<open>JSON.parse(undefined)\<close>).
\<close>

datatype error = Error string | TypeError | SyntaxError

text \<open>A number that may be \<open>NaN\<close>; every comparison with \<open>NaN\<close> is false.\<close>

type_synonym number = "int option"

definition js_minus :: "number \<Rightarrow> number \<Rightarrow> number" where
  "js_minus a b = (case a of None \<Rightarrow> None | Some x \<Rightarrow> (case b of None \<Rightarrow> None | Some y \<Rightarrow> Some (x - y)))"

definition js_gt :: "number \<Rightarrow> number \<Rightarrow> bool" where
  "js_gt a b = (case a of None \<Rightarrow> False | Some x \<Rightarrow> (case b of None \<Rightarrow> False | Some y \<Rightarrow> x > y))"

definition js_lt :: "number \<Rightarrow> number \<Rightarrow> bool" where
  "js_lt a b = (case a of None \<Rightarrow> False | Some x \<Rightarrow> (case b of None \<Rightarrow> False | Some y \<Rightarrow> x < y))"

text \<open>
  \<open>JSON.parse(JSON.stringify(v))\<close>: a property whose value is \<open>undefined\<close> is dropped, an
  \<open>undefined\<close> array element becomes \<open>null\<close>. \<open>json_value\<close> is the copy of a value that sits
  inside an object (where \<open>undefined\<close> means that the property is absent); at top level
  \<open>JSON.stringify(undefined)\<close> is \<open>undefined\<close>, which \<open>JSON.parse\<close> refuses.
\<close>

fun json_value :: "jsval \<Rightarrow> jsval" where
  "json_value (JArr xs) = JArr (map (\<lambda>x. if x = JUndefined then JNull else json_value x) xs)"
| "json_value (JObj kvs) =
     JObj (map (\<lambda>(k, v). (k, json_value v)) (filter (\<lambda>(k, v). v \<noteq> JUndefined) kvs))"
| "json_value v = v"

definition json_props :: "(string \<times> jsval) list \<Rightarrow> (string \<times> jsval) list" where
  "json_props kvs = map (\<lambda>(k, v). (k, json_value v)) (filter (\<lambda>(k, v). v \<noteq> JUndefined) kvs)"

definition json_elems :: "jsval list \<Rightarrow> jsval list" where
  "json_elems xs = map (\<lambda>x. if x = JUndefined then JNull else json_value x) xs"

definition json_copy :: "jsval \<Rightarrow> error + jsval" where
  "json_copy v = (if v = JUndefined then Inl SyntaxError else Inr (json_value v))"

text \<open>
  Data that has been through JSON, as persisted state has: no \<open>undefined\<close> anywhere in
  it. Copying such data changes nothing.
\<close>

fun is_json :: "jsval \<Rightarrow> bool" where
  "is_json JUndefined = False"
| "is_json (JArr xs) = list_all is_json xs"
| "is_json (JObj kvs) = list_all (\<lambda>(k, v). is_json v) kvs"
| "is_json v = True"

section \<open>The state store (src/lib/state.js)\<close>

subsection \<open>Data\<close>

text \<open>
  A \<open>lastUpdate\<close> property holds either a \<open>Date\<close> object (what \<open>new Date()\<close> gives; its
  argument is the time in milliseconds) or, once the object has been through
  \<open>JSON.parse(JSON.stringify(...))\<close>, the ISO-8601 string that \<open>Date.prototype.toJSON\<close> writes
  for that time (\<open>DateString t\<close> stands for the string, such as
  \<open>2022-01-01T00:00:00.000Z\<close>). In arithmetic a \<open>Date\<close> converts to its time value; such a
  string is not a numeric literal, so it converts to \<open>NaN\<close>, as \<open>undefined\<close> does.
\<close>

datatype timestamp = DateObj int | DateString int

fun toJSON :: "timestamp \<Rightarrow> timestamp" where
  "toJSON (DateObj t) = DateString t"
| "toJSON (DateString t) = DateString t"

fun ToNumber :: "timestamp option \<Rightarrow> number" where
  "ToNumber None = None"
| "ToNumber (Some (DateObj t)) = Some t"
| "ToNumber (Some (DateString t)) = None"

text \<open>The \<open>result\<close> object of a task; \<open>errors\<close> is an array or absent.\<close>

record result =
  code :: jsval
  message :: jsval
  status :: jsval
  errors :: "jsval list option"

text \<open>
  A plain data object with the properties that the store reads and writes on a task. An absent
  property is \<open>JUndefined\<close> (\<open>None\<close> for the structured ones). The same shape serves for the
  object handed to the constructor, which may carry a \<open>tasks\<close> container besides: a state
  written before tasks existed has the properties of one task at its top level.
\<close>

record task =
  id' :: jsval
  lastUpdate :: "timestamp option"
  result :: "result option"
  internalDeclaration :: jsval
  currentConfig :: jsval
  originalConfig' :: "(string \<times> jsval) list option"
  rebootRequired :: jsval
  requestOptions :: jsval
  rollbackInfo :: jsval
  traceCurrent :: jsval
  traceDesired :: jsval
  traceDiff :: jsval
  mostRecentTask' :: jsval

record existing_state = task +
  tasks' :: "(string \<times> task) list option"

text \<open>The three properties of a \<open>State\<close> instance.\<close>

record state =
  originalConfig :: "(string \<times> jsval) list"
  tasks :: "(string \<times> task) list"
  mostRecentTask :: jsval

text \<open>The object literal \<open>{}\<close>, as a task and as a result.\<close>

definition empty_object :: task where
  "empty_object = \<lparr>id' = JUndefined, lastUpdate = None, result = None,
     internalDeclaration = JUndefined, currentConfig = JUndefined, originalConfig' = None,
     rebootRequired = JUndefined, requestOptions = JUndefined, rollbackInfo = JUndefined,
     traceCurrent = JUndefined, traceDesired = JUndefined, traceDiff = JUndefined,
     mostRecentTask' = JUndefined\<rparr>"

definition empty_result :: result where
  "empty_result = \<lparr>code = JUndefined, message = JUndefined, status = JUndefined, errors = None\<rparr>"

text \<open>A \<open>State\<close> instance handed to the constructor again: its three properties, nothing else.\<close>

definition as_existing :: "state \<Rightarrow> existing_state" where
  "as_existing s = task.extend
     (empty_object\<lparr>originalConfig' := Some (originalConfig s), mostRecentTask' := mostRecentTask s\<rparr>)
     (existing_state.fields (Some (tasks s)))"

definition TASK_RETENTION_DAYS :: int where
  "TASK_RETENTION_DAYS = 7"

definition maxAge :: int where
  "maxAge = TASK_RETENTION_DAYS * 1000 * 3600 * 24"

definition not_found :: error where
  "not_found = Error ''taskId does not exist''"

subsection \<open>Retention\<close>

text \<open>
  \<open>cleanupOldTasks\<close> (state.js:561-569). \<open>expired now t\<close> is the test
  \<open>now - tasks[taskId].lastUpdate > maxAge\<close>; the loop runs over the keys that the table has
  when it starts. A key of \<open>Object.keys(tasks)\<close> is always found in the table; the \<open>None\<close>
  branch is there only because a list could repeat a key, which an object cannot.
\<close>

definition expired :: "int \<Rightarrow> 'a task_scheme \<Rightarrow> bool" where
  "expired now t = js_gt (js_minus (Some now) (ToNumber (lastUpdate t))) (Some maxAge)"

definition cleanup_step :: "int \<Rightarrow> string \<Rightarrow> (string \<times> task) list \<Rightarrow> (string \<times> task) list" where
  "cleanup_step now taskId ts =
     (case map_of ts taskId of
        None \<Rightarrow> ts
      | Some t \<Rightarrow> if expired now t then AList.delete taskId ts else ts)"

definition cleanupOldTasks :: "(string \<times> task) list \<Rightarrow> int \<Rightarrow> (string \<times> task) list" where
  "cleanupOldTasks ts now = fold (cleanup_step now) (map fst ts) ts"

subsection \<open>Tasks\<close>

text \<open>
  \<open>addTask\<close> (state.js:61-74). \<open>taskId\<close> is what \<open>uuidv4()\<close> returns, \<open>t_new\<close> what
  \<open>new Date()\<close> returns on line 65 and \<open>t_cleanup\<close> what it returns on line 563. The result is
  the returned id and the state after the call.
\<close>

definition addTask :: "state \<Rightarrow> string \<Rightarrow> int \<Rightarrow> int \<Rightarrow> string \<times> state" where
  "addTask s taskId t_new t_cleanup =
     (taskId,
      s\<lparr>tasks := cleanupOldTasks
           (AList.update taskId
              (empty_object\<lparr>id' := JStr taskId, lastUpdate := Some (DateObj t_new),
                 result := Some empty_result, internalDeclaration := JObj []\<rparr>)
              (tasks s))
           t_cleanup,
        mostRecentTask := JStr taskId\<rparr>)"

text \<open>
  \<open>this.tasks[taskId]\<close>. The table is a plain object, so the read finds an own property first
  and goes on to \<open>Object.prototype\<close> otherwise. \<open>Object.keys\<close>, an assignment
  \<open>this.tasks[taskId] = ...\<close> and \<open>delete\<close> concern own properties only. The prototype is not
  part of the \<open>State\<close> instance: what it holds at the time of a call is an input of the call,
  \<open>proto\<close>, which gives for a name the object inherited under that name, seen through the
  properties that the store reads on a task (\<open>None\<close>: nothing truthy is inherited under the
  name). \<open>Object_prototype\<close> is the prototype as the engine provides it: twelve members, eleven
  functions and, under \<open>__proto__\<close>, \<open>Object.prototype\<close> itself, none of which has one of the
  properties that the store reads on a task.
\<close>

type_synonym prototype = "string \<Rightarrow> task option"

definition Object_prototype :: prototype where
  "Object_prototype name =
     (if name \<in> set [''constructor'', ''__defineGetter__'', ''__defineSetter__'', ''hasOwnProperty'',
                      ''__lookupGetter__'', ''__lookupSetter__'', ''isPrototypeOf'',
                      ''propertyIsEnumerable'', ''toString'', ''valueOf'', ''__proto__'',
                      ''toLocaleString'']
      then Some empty_object else None)"

datatype entry = Own task | Inherited task | Missing

definition lookup :: "prototype \<Rightarrow> state \<Rightarrow> string \<Rightarrow> entry" where
  "lookup proto s taskId =
     (case map_of (tasks s) taskId of
        Some t \<Rightarrow> Own t
      | None \<Rightarrow> (case proto taskId of Some m \<Rightarrow> Inherited m | None \<Rightarrow> Missing))"

text \<open>
  \<open>getTask\<close> returns \<open>this.tasks[taskId]\<close>: the task, an inherited member, or \<open>undefined\<close>
  (\<open>Missing\<close>).
\<close>

definition getTask :: "prototype \<Rightarrow> state \<Rightarrow> string \<Rightarrow> entry" where
  "getTask proto s taskId = lookup proto s taskId"

definition getTaskIds :: "state \<Rightarrow> string list" where
  "getTaskIds s = map fst (tasks s)"

text \<open>Writing a task object back under its key.\<close>

definition store :: "state \<Rightarrow> string \<Rightarrow> task \<Rightarrow> state" where
  "store s taskId t = s\<lparr>tasks := AList.update taskId t (tasks s)\<rparr>"

text \<open>
  The accessors. Each tests \<open>this.tasks[taskId]\<close> (an object when it is there, so truthy) and
  throws \<open>Error('taskId does not exist')\<close> otherwise. The test does not tell a task from an
  inherited member: under an inherited name a getter reads the member's property, and a setter
  assigns on the member, which leaves the \<open>State\<close> instance as it was. A setter returns the
  state after the call. Reading or assigning a property of \<open>result\<close> is a \<open>TypeError\<close> when the
  object has no \<open>result\<close> object.
\<close>

definition setCurrentConfig :: "prototype \<Rightarrow> state \<Rightarrow> string \<Rightarrow> jsval \<Rightarrow> error + state" where
  "setCurrentConfig proto s taskId cfg =
     (case lookup proto s taskId of
        Own t \<Rightarrow> (case json_copy cfg of
                    Inl e \<Rightarrow> Inl e
                  | Inr c \<Rightarrow> Inr (store s taskId (t\<lparr>currentConfig := c\<rparr>)))
      | Inherited m \<Rightarrow> (case json_copy cfg of Inl e \<Rightarrow> Inl e | Inr c \<Rightarrow> Inr s)
      | Missing \<Rightarrow> Inl not_found)"

definition getCurrentConfig :: "prototype \<Rightarrow> state \<Rightarrow> string \<Rightarrow> error + jsval" where
  "getCurrentConfig proto s taskId =
     (case lookup proto s taskId of
        Own t \<Rightarrow> Inr (currentConfig t)
      | Inherited m \<Rightarrow> Inr (currentConfig m)
      | Missing \<Rightarrow> Inl not_found)"

definition getOriginalConfigByTaskId ::
  "prototype \<Rightarrow> state \<Rightarrow> string \<Rightarrow> error + (string \<times> jsval) list option" where
  "getOriginalConfigByTaskId proto s taskId =
     (case lookup proto s taskId of
        Own t \<Rightarrow> Inr (originalConfig' t)
      | Inherited m \<Rightarrow> Inr (originalConfig' m)
      | Missing \<Rightarrow> Inl not_found)"

definition setCode :: "prototype \<Rightarrow> state \<Rightarrow> string \<Rightarrow> jsval \<Rightarrow> error + state" where
  "setCode proto s taskId c =
     (case lookup proto s taskId of
        Own t \<Rightarrow> (case result t of
                    None \<Rightarrow> Inl TypeError
                  | Some r \<Rightarrow> Inr (store s taskId (t\<lparr>result := Some (r\<lparr>code := c\<rparr>)\<rparr>)))
      | Inherited m \<Rightarrow> (case result m of None \<Rightarrow> Inl TypeError | Some r \<Rightarrow> Inr s)
      | Missing \<Rightarrow> Inl not_found)"

definition getCode :: "prototype \<Rightarrow> state \<Rightarrow> string \<Rightarrow> error + jsval" where
  "getCode proto s taskId =
     (case lookup proto s taskId of
        Own t \<Rightarrow> (case result t of None \<Rightarrow> Inl TypeError | Some r \<Rightarrow> Inr (code r))
      | Inherited m \<Rightarrow> (case result m of None \<Rightarrow> Inl TypeError | Some r \<Rightarrow> Inr (code r))
      | Missing \<Rightarrow> Inl not_found)"

definition setMessage :: "prototype \<Rightarrow> state \<Rightarrow> string \<Rightarrow> jsval \<Rightarrow> error + state" where
  "setMessage proto s taskId m =
     (case lookup proto s taskId of
        Own t \<Rightarrow> (case result t of
                    None \<Rightarrow> Inl TypeError
                  | Some r \<Rightarrow> Inr (store s taskId (t\<lparr>result := Some (r\<lparr>message := m\<rparr>)\<rparr>)))
      | Inherited i \<Rightarrow> (case result i of None \<Rightarrow> Inl TypeError | Some r \<Rightarrow> Inr s)
      | Missing \<Rightarrow> Inl not_found)"

definition getMessage :: "prototype \<Rightarrow> state \<Rightarrow> string \<Rightarrow> error + jsval" where
  "getMessage proto s taskId =
     (case lookup proto s taskId of
        Own t \<Rightarrow> (case result t of None \<Rightarrow> Inl TypeError | Some r \<Rightarrow> Inr (message r))
      | Inherited m \<Rightarrow> (case result m of None \<Rightarrow> Inl TypeError | Some r \<Rightarrow> Inr (message r))
      | Missing \<Rightarrow> Inl not_found)"

definition setStatus :: "prototype \<Rightarrow> state \<Rightarrow> string \<Rightarrow> jsval \<Rightarrow> error + state" where
  "setStatus proto s taskId st =
     (case lookup proto s taskId of
        Own t \<Rightarrow> (case result t of
                    None \<Rightarrow> Inl TypeError
                  | Some r \<Rightarrow> Inr (store s taskId (t\<lparr>result := Some (r\<lparr>status := st\<rparr>)\<rparr>)))
      | Inherited m \<Rightarrow> (case result m of None \<Rightarrow> Inl TypeError | Some r \<Rightarrow> Inr s)
      | Missing \<Rightarrow> Inl not_found)"

definition getStatus :: "prototype \<Rightarrow> state \<Rightarrow> string \<Rightarrow> error + jsval" where
  "getStatus proto s taskId =
     (case lookup proto s taskId of
        Own t \<Rightarrow> (case result t of None \<Rightarrow> Inl TypeError | Some r \<Rightarrow> Inr (status r))
      | Inherited m \<Rightarrow> (case result m of None \<Rightarrow> Inl TypeError | Some r \<Rightarrow> Inr (status r))
      | Missing \<Rightarrow> Inl not_found)"

text \<open>
  \<open>setErrors\<close> (state.js:269-279). The argument is an array (\<open>Some\<close>, truthy even when empty)
  or \<open>undefined\<close>/\<open>null\<close> (\<open>None\<close>). An array replaces the stored one by a copy
  (\<open>errors.slice()\<close>); without an argument a stored array is emptied (\<open>length = 0\<close>).
\<close>

definition setErrors :: "prototype \<Rightarrow> state \<Rightarrow> string \<Rightarrow> jsval list option \<Rightarrow> error + state" where
  "setErrors proto s taskId errs =
     (case lookup proto s taskId of
        Own t \<Rightarrow>
          (case result t of
             None \<Rightarrow> Inl TypeError
           | Some r \<Rightarrow>
               (case errs of
                  Some xs \<Rightarrow> Inr (store s taskId (t\<lparr>result := Some (r\<lparr>errors := Some xs\<rparr>)\<rparr>))
                | None \<Rightarrow>
                    (case errors r of
                       Some old \<Rightarrow> Inr (store s taskId (t\<lparr>result := Some (r\<lparr>errors := Some []\<rparr>)\<rparr>))
                     | None \<Rightarrow> Inr s)))
      | Inherited m \<Rightarrow> (case result m of None \<Rightarrow> Inl TypeError | Some r \<Rightarrow> Inr s)
      | Missing \<Rightarrow> Inl not_found)"

definition getErrors :: "prototype \<Rightarrow> state \<Rightarrow> string \<Rightarrow> error + jsval list option" where
  "getErrors proto s taskId =
     (case lookup proto s taskId of
        Own t \<Rightarrow> (case result t of None \<Rightarrow> Inl TypeError | Some r \<Rightarrow> Inr (errors r))
      | Inherited m \<Rightarrow> (case result m of None \<Rightarrow> Inl TypeError | Some r \<Rightarrow> Inr (errors r))
      | Missing \<Rightarrow> Inl not_found)"

text \<open>
  \<open>setDeclaration\<close> stores \<open>doUtil.mask(declaration)\<close>; \<open>doUtil\<close> is not among the source
  files, so the masking function is the parameter \<open>doUtil_mask\<close>.
\<close>

definition setDeclaration ::
  "(jsval \<Rightarrow> jsval) \<Rightarrow> prototype \<Rightarrow> state \<Rightarrow> string \<Rightarrow> jsval \<Rightarrow> error + state" where
  "setDeclaration doUtil_mask proto s taskId declaration =
     (case lookup proto s taskId of
        Own t \<Rightarrow> Inr (store s taskId (t\<lparr>internalDeclaration := doUtil_mask declaration\<rparr>))
      | Inherited m \<Rightarrow> Inr s
      | Missing \<Rightarrow> Inl not_found)"

definition setRebootRequired :: "prototype \<Rightarrow> state \<Rightarrow> string \<Rightarrow> jsval \<Rightarrow> error + state" where
  "setRebootRequired proto s taskId b =
     (case lookup proto s taskId of
        Own t \<Rightarrow> Inr (store s taskId (t\<lparr>rebootRequired := b\<rparr>))
      | Inherited m \<Rightarrow> Inr s
      | Missing \<Rightarrow> Inl not_found)"

definition getRebootRequired :: "prototype \<Rightarrow> state \<Rightarrow> string \<Rightarrow> error + jsval" where
  "getRebootRequired proto s taskId =
     (case lookup proto s taskId of
        Own t \<Rightarrow> Inr (rebootRequired t)
      | Inherited m \<Rightarrow> Inr (rebootRequired m)
      | Missing \<Rightarrow> Inl not_found)"

definition setRequestOptions :: "prototype \<Rightarrow> state \<Rightarrow> string \<Rightarrow> jsval \<Rightarrow> error + state" where
  "setRequestOptions proto s taskId reqOpts =
     (case lookup proto s taskId of
        Own t \<Rightarrow> Inr (store s taskId (t\<lparr>requestOptions := reqOpts\<rparr>))
      | Inherited m \<Rightarrow> Inr s
      | Missing \<Rightarrow> Inl not_found)"

definition getRequestOptions :: "prototype \<Rightarrow> state \<Rightarrow> string \<Rightarrow> error + jsval" where
  "getRequestOptions proto s taskId =
     (case lookup proto s taskId of
        Own t \<Rightarrow> Inr (requestOptions t)
      | Inherited m \<Rightarrow> Inr (requestOptions m)
      | Missing \<Rightarrow> Inl not_found)"

text \<open>\<open>setRollbackInfo\<close> (state.js:365-373) looks at the task only when its argument is truthy.\<close>

definition setRollbackInfo :: "prototype \<Rightarrow> state \<Rightarrow> string \<Rightarrow> jsval \<Rightarrow> error + state" where
  "setRollbackInfo proto s taskId info =
     (if truthy info
      then (case lookup proto s taskId of
              Own t \<Rightarrow> (case json_copy info of
                          Inl e \<Rightarrow> Inl e
                        | Inr c \<Rightarrow> Inr (store s taskId (t\<lparr>rollbackInfo := c\<rparr>)))
            | Inherited m \<Rightarrow> (case json_copy info of Inl e \<Rightarrow> Inl e | Inr c \<Rightarrow> Inr s)
            | Missing \<Rightarrow> Inl not_found)
      else Inr s)"

definition getRollbackInfo :: "prototype \<Rightarrow> state \<Rightarrow> string \<Rightarrow> error + jsval" where
  "getRollbackInfo proto s taskId =
     (case lookup proto s taskId of
        Own t \<Rightarrow> Inr (rollbackInfo t)
      | Inherited m \<Rightarrow> Inr (rollbackInfo m)
      | Missing \<Rightarrow> Inl not_found)"

definition setTraceCurrent :: "prototype \<Rightarrow> state \<Rightarrow> string \<Rightarrow> jsval \<Rightarrow> error + state" where
  "setTraceCurrent proto s taskId cfg =
     (case lookup proto s taskId of
        Own t \<Rightarrow> (case json_copy cfg of
                    Inl e \<Rightarrow> Inl e
                  | Inr c \<Rightarrow> Inr (store s taskId (t\<lparr>traceCurrent := c\<rparr>)))
      | Inherited m \<Rightarrow> (case json_copy cfg of Inl e \<Rightarrow> Inl e | Inr c \<Rightarrow> Inr s)
      | Missing \<Rightarrow> Inl not_found)"

definition getTraceCurrent :: "prototype \<Rightarrow> state \<Rightarrow> string \<Rightarrow> error + jsval" where
  "getTraceCurrent proto s taskId =
     (case lookup proto s taskId of
        Own t \<Rightarrow> Inr (traceCurrent t)
      | Inherited m \<Rightarrow> Inr (traceCurrent m)
      | Missing \<Rightarrow> Inl not_found)"

definition setTraceDesired :: "prototype \<Rightarrow> state \<Rightarrow> string \<Rightarrow> jsval \<Rightarrow> error + state" where
  "setTraceDesired proto s taskId cfg =
     (case lookup proto s taskId of
        Own t \<Rightarrow> (case json_copy cfg of
                    Inl e \<Rightarrow> Inl e
                  | Inr c \<Rightarrow> Inr (store s taskId (t\<lparr>traceDesired := c\<rparr>)))
      | Inherited m \<Rightarrow> (case json_copy cfg of Inl e \<Rightarrow> Inl e | Inr c \<Rightarrow> Inr s)
      | Missing \<Rightarrow> Inl not_found)"

definition getTraceDesired :: "prototype \<Rightarrow> state \<Rightarrow> string \<Rightarrow> error + jsval" where
  "getTraceDesired proto s taskId =
     (case lookup proto s taskId of
        Own t \<Rightarrow> Inr (traceDesired t)
      | Inherited m \<Rightarrow> Inr (traceDesired m)
      | Missing \<Rightarrow> Inl not_found)"

definition setTraceDiff :: "prototype \<Rightarrow> state \<Rightarrow> string \<Rightarrow> jsval \<Rightarrow> error + state" where
  "setTraceDiff proto s taskId d =
     (case lookup proto s taskId of
        Own t \<Rightarrow> (case json_copy d of
                    Inl e \<Rightarrow> Inl e
                  | Inr c \<Rightarrow> Inr (store s taskId (t\<lparr>traceDiff := c\<rparr>)))
      | Inherited m \<Rightarrow> (case json_copy d of Inl e \<Rightarrow> Inl e | Inr c \<Rightarrow> Inr s)
      | Missing \<Rightarrow> Inl not_found)"

definition getTraceDiff :: "prototype \<Rightarrow> state \<Rightarrow> string \<Rightarrow> error + jsval" where
  "getTraceDiff proto s taskId =
     (case lookup proto s taskId of
        Own t \<Rightarrow> Inr (traceDiff t)
      | Inherited m \<Rightarrow> Inr (traceDiff m)
      | Missing \<Rightarrow> Inl not_found)"

text \<open>\<open>hasTrace\<close>: \<open>a || b || c\<close> over the three getters, each of which may throw.\<close>

definition hasTrace :: "prototype \<Rightarrow> state \<Rightarrow> string \<Rightarrow> error + jsval" where
  "hasTrace proto s taskId =
     (case getTraceCurrent proto s taskId of
        Inl e \<Rightarrow> Inl e
      | Inr a \<Rightarrow>
          if truthy a then Inr a
          else (case getTraceDesired proto s taskId of
                  Inl e \<Rightarrow> Inl e
                | Inr b \<Rightarrow> if truthy b then Inr b else getTraceDiff proto s taskId))"

definition getDeclaration :: "prototype \<Rightarrow> state \<Rightarrow> string \<Rightarrow> error + jsval" where
  "getDeclaration proto s taskId =
     (case lookup proto s taskId of
        Own t \<Rightarrow> Inr (internalDeclaration t)
      | Inherited m \<Rightarrow> Inr (internalDeclaration m)
      | Missing \<Rightarrow> Inl not_found)"

definition getLastUpdate :: "prototype \<Rightarrow> state \<Rightarrow> string \<Rightarrow> error + timestamp option" where
  "getLastUpdate proto s taskId =
     (case lookup proto s taskId of
        Own t \<Rightarrow> Inr (lastUpdate t)
      | Inherited m \<Rightarrow> Inr (lastUpdate m)
      | Missing \<Rightarrow> Inl not_found)"

text \<open>
  \<open>updateResult\<close> (state.js:499-529); \<open>now\<close> is what \<open>new Date()\<close> returns. The \<open>result\<close>
  object is touched only under a truthy argument. \<open>appended\<close> is the array after
  \<open>concat\<close> (an array argument, spread) or \<open>push\<close> (anything else).
\<close>

definition appended :: "jsval list option \<Rightarrow> jsval \<Rightarrow> jsval list" where
  "appended old errs =
     (case old of None \<Rightarrow> [] | Some xs \<Rightarrow> xs) @ (case errs of JArr ys \<Rightarrow> ys | e \<Rightarrow> [e])"

definition updateResult ::
  "prototype \<Rightarrow> state \<Rightarrow> string \<Rightarrow> jsval \<Rightarrow> jsval \<Rightarrow> jsval \<Rightarrow> jsval \<Rightarrow> int \<Rightarrow> error + state" where
  "updateResult proto s taskId c st m errs now =
     (case lookup proto s taskId of
        Own t \<Rightarrow>
          if \<not> truthy c \<and> \<not> truthy st \<and> \<not> truthy m \<and> \<not> truthy errs
          then Inr (store s taskId (t\<lparr>lastUpdate := Some (DateObj now)\<rparr>))
          else (case result t of
                  None \<Rightarrow> Inl TypeError
                | Some r \<Rightarrow>
                    let r1 = (if truthy c then r\<lparr>code := c\<rparr> else r);
                        r2 = (if truthy st then r1\<lparr>status := st\<rparr> else r1);
                        r3 = (if truthy m then r2\<lparr>message := m\<rparr> else r2);
                        r4 = (if truthy errs then r3\<lparr>errors := Some (appended (errors r3) errs)\<rparr> else r3)
                    in Inr (store s taskId (t\<lparr>lastUpdate := Some (DateObj now), result := Some r4\<rparr>)))
      | Inherited i \<Rightarrow>
          if \<not> truthy c \<and> \<not> truthy st \<and> \<not> truthy m \<and> \<not> truthy errs
          then Inr s
          else (case result i of None \<Rightarrow> Inl TypeError | Some r \<Rightarrow> Inr s)
      | Missing \<Rightarrow> Inl not_found)"

subsection \<open>Loading persisted state\<close>

text \<open>
  What state.js imports and the source files do not hold: the running version
  (\<open>doUtil.getDoVersion()\<close>), the version comparison of the cloud library (it may throw, and
  may answer \<open>NaN\<close>), the list of classes without a name
  (\<open>ConfigManager.getNamelessClasses(configItems)\<close>) and the identifier rewriting
  \<open>parserUtil.updateIds(configItems, schemaClass, config, itemName)\<close>, whose last argument is
  \<open>JUndefined\<close> when the call gives three.
\<close>

record env =
  VERSION :: string
  RELEASE :: string
  versionCompare :: "jsval \<Rightarrow> jsval \<Rightarrow> error + number"
  NAMELESS_CLASSES :: "string list"
  updateIds :: "string \<Rightarrow> jsval \<Rightarrow> jsval \<Rightarrow> error + jsval"

definition doVersionStr :: "env \<Rightarrow> string" where
  "doVersionStr E = VERSION E @ ''-'' @ RELEASE E"

text \<open>A loop body that may throw, run over a list: the first throw ends the loop.\<close>

fun map_result :: "('a \<Rightarrow> error + 'b) \<Rightarrow> 'a list \<Rightarrow> error + 'b list" where
  "map_result f [] = Inr []"
| "map_result f (x # xs) =
     (case f x of
        Inl e \<Rightarrow> Inl e
      | Inr y \<Rightarrow> (case map_result f xs of Inl e \<Rightarrow> Inl e | Inr ys \<Rightarrow> Inr (y # ys)))"

text \<open>\<open>Object.keys(c).forEach((k) => { c[k] = f(k, c[k]); })\<close> on the properties of an object.\<close>

definition assign_props ::
  "(string \<Rightarrow> jsval \<Rightarrow> error + jsval) \<Rightarrow> (string \<times> jsval) list \<Rightarrow> error + (string \<times> jsval) list" where
  "assign_props f kvs =
     map_result (\<lambda>(k, v). case f k v of Inl e \<Rightarrow> Inl e | Inr v' \<Rightarrow> Inr (k, v')) kvs"

text \<open>The key of an array element: its index in decimal.\<close>

function index_string :: "nat \<Rightarrow> string" where
  "index_string n =
     (if n < 10 then [''0123456789'' ! n]
      else index_string (n div 10) @ [''0123456789'' ! (n mod 10)])"
  by pat_completeness auto
termination
  by (relation "measure (\<lambda>n. n)") auto

text \<open>
  The same loop on any value. The keys of an array are its indices; a number or a boolean has
  no keys; \<open>Object.keys\<close> throws on \<open>null\<close> and \<open>undefined\<close>; the keys of a string are
  its indices, and the first assignment to one throws in strict mode (after \<open>f\<close> has run).
\<close>

fun assign_each :: "(string \<Rightarrow> jsval \<Rightarrow> error + jsval) \<Rightarrow> jsval \<Rightarrow> error + jsval" where
  "assign_each f (JObj kvs) =
     (case assign_props f kvs of Inl e \<Rightarrow> Inl e | Inr kvs' \<Rightarrow> Inr (JObj kvs'))"
| "assign_each f (JArr xs) =
     (case assign_props f (zip (map index_string [0..<length xs]) xs) of
        Inl e \<Rightarrow> Inl e
      | Inr kvs' \<Rightarrow> Inr (JArr (map snd kvs')))"
| "assign_each f (JStr s) =
     (case s of
        [] \<Rightarrow> Inr (JStr s)
      | c # cs \<Rightarrow> (case f ''0'' (JStr [c]) of Inl e \<Rightarrow> Inl e | Inr v \<Rightarrow> Inl TypeError))"
| "assign_each f (JNum n) = Inr (JNum n)"
| "assign_each f (JBool b) = Inr (JBool b)"
| "assign_each f JNull = Inl TypeError"
| "assign_each f JUndefined = Inl TypeError"

text \<open>
  Reading the property \<open>version\<close> or \<open>Common\<close> of a value: a \<open>TypeError\<close> on \<open>null\<close> and
  \<open>undefined\<close>, \<open>undefined\<close> on anything that is not a plain object.
\<close>

fun read_prop :: "jsval \<Rightarrow> string \<Rightarrow> error + jsval" where
  "read_prop JUndefined k = Inl TypeError"
| "read_prop JNull k = Inl TypeError"
| "read_prop (JObj kvs) k = Inr (case map_of kvs k of None \<Rightarrow> JUndefined | Some v \<Rightarrow> v)"
| "read_prop v k = Inr JUndefined"

text \<open>
  \<open>updateNewIdToId\<close> (state.js:571-602). \<open>migrate_class\<close> is the body of the loop over the
  schema classes of one \<open>Common\<close> container (lines 581-598), \<open>migrate_entry\<close> the body of the
  loop over the config ids (lines 575-600), in which only a plain object can have a truthy
  \<open>Common\<close>.
\<close>

definition migrate_class :: "env \<Rightarrow> string \<Rightarrow> jsval \<Rightarrow> error + jsval" where
  "migrate_class E schemaClass config =
     (if schemaClass \<in> set (NAMELESS_CLASSES E)
      then updateIds E schemaClass config JUndefined
      else assign_each (\<lambda>itemName item. updateIds E schemaClass item (JStr itemName)) config)"

definition migrate_entry :: "env \<Rightarrow> jsval \<Rightarrow> error + jsval" where
  "migrate_entry E configById =
     (case read_prop configById ''version'' of
        Inl e \<Rightarrow> Inl e
      | Inr v \<Rightarrow>
          (case versionCompare E (if truthy v then v else JStr ''0.0.0-0'') (JStr (doVersionStr E)) of
             Inl e \<Rightarrow> Inl e
           | Inr c \<Rightarrow>
               if js_lt c (Some 0)
               then (case configById of
                       JObj kvs \<Rightarrow>
                         (case map_of kvs ''Common'' of
                            None \<Rightarrow> Inr configById
                          | Some oc \<Rightarrow>
                              if truthy oc
                              then (case assign_each (migrate_class E) oc of
                                      Inl e \<Rightarrow> Inl e
                                    | Inr oc' \<Rightarrow>
                                        Inr (JObj (AList.update ''Common'' oc'
                                                    (AList.update ''version'' (JStr (doVersionStr E)) kvs))))
                              else Inr configById)
                     | other \<Rightarrow> Inr configById)
               else Inr configById))"

definition updateNewIdToId :: "env \<Rightarrow> (string \<times> jsval) list \<Rightarrow> error + (string \<times> jsval) list" where
  "updateNewIdToId E oc = assign_props (\<lambda>configId configById. migrate_entry E configById) oc"

text \<open>What \<open>JSON.parse(JSON.stringify(...))\<close> makes of a result and of a task.\<close>

definition json_copy_result :: "result \<Rightarrow> result" where
  "json_copy_result r =
     r\<lparr>code := json_value (code r), message := json_value (message r),
       status := json_value (status r), errors := map_option json_elems (errors r)\<rparr>"

definition json_copy_task :: "'a task_scheme \<Rightarrow> 'a task_scheme" where
  "json_copy_task t =
     t\<lparr>id' := json_value (id' t),
       lastUpdate := map_option toJSON (lastUpdate t),
       result := map_option json_copy_result (result t),
       internalDeclaration := json_value (internalDeclaration t),
       currentConfig := json_value (currentConfig t),
       originalConfig' := map_option json_props (originalConfig' t),
       rebootRequired := json_value (rebootRequired t),
       requestOptions := json_value (requestOptions t),
       rollbackInfo := json_value (rollbackInfo t),
       traceCurrent := json_value (traceCurrent t),
       traceDesired := json_value (traceDesired t),
       traceDiff := json_value (traceDiff t),
       mostRecentTask' := json_value (mostRecentTask' t)\<rparr>"

text \<open>
  \<open>copyAndUpgradeState\<close> (state.js:539-559), with \<open>taskId\<close> for \<open>uuidv4()\<close> and \<open>now\<close> for
  \<open>new Date()\<close>. The container \<open>tasks\<close> and \<open>originalConfig\<close> are objects or absent, so
  each is falsy exactly when absent. Of the copy that the function returns, the result keeps
  the three properties that the constructor reads.
\<close>

definition copyAndUpgradeState :: "env \<Rightarrow> existing_state \<Rightarrow> string \<Rightarrow> int \<Rightarrow> error + state" where
  "copyAndUpgradeState E existingState taskId now =
     (let ts = (case tasks' existingState of
                  Some ts \<Rightarrow> ts
                | None \<Rightarrow>
                    [(taskId, (json_copy_task (task.truncate existingState))
                                \<lparr>lastUpdate := Some (DateObj now), id' := JStr taskId\<rparr>)]);
          recent = (case tasks' existingState of
                      Some ts \<Rightarrow> mostRecentTask' existingState
                    | None \<Rightarrow> JStr taskId);
          oc = (case originalConfig' existingState of Some oc \<Rightarrow> oc | None \<Rightarrow> [])
      in case updateNewIdToId E oc of
           Inl e \<Rightarrow> Inl e
         | Inr oc' \<Rightarrow>
             Inr \<lparr>originalConfig = json_props oc',
                  tasks = map (\<lambda>(k, t). (k, json_copy_task t)) ts,
                  mostRecentTask = json_value recent\<rparr>)"

text \<open>The constructor (state.js:43-54); \<open>None\<close> is a call without a (truthy) argument.\<close>

definition empty_State :: state where
  "empty_State = \<lparr>originalConfig = [], tasks = [], mostRecentTask = JNull\<rparr>"

definition new_State :: "env \<Rightarrow> existing_state option \<Rightarrow> string \<Rightarrow> int \<Rightarrow> error + state" where
  "new_State E existingState taskId now =
     (case existingState of
        Some es \<Rightarrow> copyAndUpgradeState E es taskId now
      | None \<Rightarrow> Inr empty_State)"

subsection \<open>Masking\<close>

text \<open>
  Modelled from the spec: \<open>doUtil.mask\<close>, which \<open>setDeclaration\<close> calls, is not among the
  source files. The spec says that declarations are stored masked, secret-bearing fields such
  as passwords being replaced with redaction markers, and names the LDAP \<open>bindPassword\<close> and
  the RADIUS \<open>secret\<close>. It gives neither the full list of such fields nor the marker, so both
  are parameters: wherever an object in the declaration has a property named in \<open>secrets\<close>,
  its value is replaced by \<open>marker\<close>.
\<close>

fun spec_mask :: "string list \<Rightarrow> jsval \<Rightarrow> jsval \<Rightarrow> jsval" where
  "spec_mask secrets marker (JObj kvs) =
     JObj (map (\<lambda>(k, v). (k, if k \<in> set secrets then marker else spec_mask secrets marker v)) kvs)"
| "spec_mask secrets marker (JArr xs) = JArr (map (spec_mask secrets marker) xs)"
| "spec_mask secrets marker v = v"

text \<open>The values that a declaration holds under the secret-bearing property names.\<close>

fun secret_values :: "string list \<Rightarrow> jsval \<Rightarrow> jsval list" where
  "secret_values secrets (JObj kvs) =
     concat (map (\<lambda>(k, v). if k \<in> set secrets then [v] else secret_values secrets v) kvs)"
| "secret_values secrets (JArr xs) = concat (map (secret_values secrets) xs)"
| "secret_values secrets v = []"

section \<open>The authentication handler (src/lib/authHandler.js)\<close>

subsection \<open>Strings\<close>

text \<open>
  \<open>String(v)\<close>, as a template literal and \<open>Array.prototype.join\<close> apply it; in a joined
  array \<open>null\<close> and \<open>undefined\<close> give the empty string.
\<close>

definition int_string :: "int \<Rightarrow> string" where
  "int_string n = (if n < 0 then CHR ''-'' # index_string (nat (- n)) else index_string (nat n))"

fun js_join :: "string \<Rightarrow> string list \<Rightarrow> string" where
  "js_join sep [] = []"
| "js_join sep [x] = x"
| "js_join sep (x # y # ys) = x @ sep @ js_join sep (y # ys)"

fun ToString :: "jsval \<Rightarrow> string" where
  "ToString JUndefined = ''undefined''"
| "ToString JNull = ''null''"
| "ToString (JBool b) = (if b then ''true'' else ''false'')"
| "ToString (JNum n) = int_string n"
| "ToString (JStr s) = s"
| "ToString (JArr xs) =
     js_join '','' (map (\<lambda>x. if x = JUndefined \<or> x = JNull then [] else ToString x) xs)"
| "ToString (JObj kvs) = ''[object Object]''"

definition join_elements :: "string \<Rightarrow> jsval list \<Rightarrow> string" where
  "join_elements sep xs =
     js_join sep (map (\<lambda>x. if x = JUndefined \<or> x = JNull then [] else ToString x) xs)"

text \<open>
  Reading a property of a value that is known to be truthy: the own property of a plain
  object, \<open>undefined\<close> on anything else. \<open>a || b\<close> on values.
\<close>

definition jget :: "jsval \<Rightarrow> string \<Rightarrow> jsval" where
  "jget v k = (case v of JObj kvs \<Rightarrow> (case map_of kvs k of None \<Rightarrow> JUndefined | Some x \<Rightarrow> x) | other \<Rightarrow> JUndefined)"

definition or_else :: "jsval \<Rightarrow> jsval \<Rightarrow> jsval" where
  "or_else a b = (if truthy a then a else b)"

definition ends_with :: "string \<Rightarrow> string \<Rightarrow> bool" where
  "ends_with s x = (length x \<le> length s \<and> drop (length s - length x) s = x)"

subsection \<open>The device client\<close>

text \<open>
  A request to the device: the method of \<open>bigIp\<close> that is called (\<open>verb\<close>) and its arguments. The
  entries of \<open>PATHS\<close> (sharedConstants, not among the source files) are kept symbolic;
  \<open>suffix\<close> is what a template literal appends to one. \<open>noRetry\<close> says that the retry
  options are \<open>cloudUtil.NO_RETRY\<close>.
\<close>

datatype verb = Create | CreateOrModify | Modify | Delete

datatype PATHS = AuthRemoteRole | AuthRadiusServer | AuthRadius | AuthTacacs | AuthLdap
  | AuthSource | AuthRemoteUser | SSLCert | SSLKey | Uploads | UnixRm

record request =
  verb :: verb
  path :: PATHS
  suffix :: string
  body :: jsval
  iControlOptions :: jsval
  noRetry :: bool
  options :: jsval

text \<open>
  Time is a count of steps. The device is any function that tells, for a request issued at
  time \<open>t\<close>, how long the request takes and whether it fails (with what). An \<open>event\<close> records
  one call: when it was issued, when it settled, and how.
\<close>

type_synonym bigIp = "nat \<Rightarrow> request \<Rightarrow> nat \<times> error option"

record event =
  issued :: nat
  settled :: nat
  req :: request
  failure :: "error option"

text \<open>
  A promise that has been created: the calls made on its behalf, the time at which it settles
  and the reason of its rejection (\<open>None\<close> when it is fulfilled). The calls of a branch of
  \<open>Promise.all\<close> that is still running when the whole is rejected stay in the trace.
\<close>

record promise =
  trace :: "event list"
  finished :: nat
  rejected :: "error option"

definition call :: "bigIp \<Rightarrow> request \<Rightarrow> nat \<Rightarrow> promise" where
  "call dev r t =
     (case dev t r of
        (d, out) \<Rightarrow> \<lparr>trace = [\<lparr>issued = t, settled = t + d, req = r, failure = out\<rparr>],
                       finished = t + d, rejected = out\<rparr>)"

definition Promise_resolve :: "nat \<Rightarrow> promise" where
  "Promise_resolve t = \<lparr>trace = [], finished = t, rejected = None\<rparr>"

definition Promise_reject :: "error \<Rightarrow> nat \<Rightarrow> promise" where
  "Promise_reject e t = \<lparr>trace = [], finished = t, rejected = Some e\<rparr>"

text \<open>
  \<open>p.then(() => k())\<close>: the callback runs when \<open>p\<close> is fulfilled, and what it returns
  settles the whole; a rejection of \<open>p\<close> passes through. \<open>p.catch((err) => h(err))\<close> is the
  mirror image.
\<close>

definition and_then :: "promise \<Rightarrow> (nat \<Rightarrow> promise) \<Rightarrow> promise" where
  "and_then p k =
     (case rejected p of
        Some e \<Rightarrow> p
      | None \<Rightarrow> (let q = k (finished p)
                 in \<lparr>trace = trace p @ trace q, finished = finished q, rejected = rejected q\<rparr>))"

definition or_catch :: "promise \<Rightarrow> (error \<Rightarrow> nat \<Rightarrow> promise) \<Rightarrow> promise" where
  "or_catch p h =
     (case rejected p of
        None \<Rightarrow> p
      | Some e \<Rightarrow> (let q = h e (finished p)
                   in \<lparr>trace = trace p @ trace q, finished = finished q, rejected = rejected q\<rparr>))"

text \<open>
  \<open>Promise.all(ps)\<close>, called at time \<open>t\<close> on promises that exist already: fulfilled when the
  last of them is, rejected as soon as one of them is, with that one's reason (\<open>earliest\<close>;
  of two that are rejected at the same time, the one that comes first in the array).
\<close>

fun earliest :: "promise list \<Rightarrow> promise option" where
  "earliest [] = None"
| "earliest (p # ps) =
     (case earliest ps of
        None \<Rightarrow> (if rejected p = None then None else Some p)
      | Some q \<Rightarrow> (if rejected p \<noteq> None \<and> finished p \<le> finished q then Some p else Some q))"

definition Promise_all :: "nat \<Rightarrow> promise list \<Rightarrow> promise" where
  "Promise_all t ps =
     \<lparr>trace = concat (map trace ps),
      finished = (case earliest ps of None \<Rightarrow> fold max (map finished ps) t | Some q \<Rightarrow> finished q),
      rejected = (case earliest ps of None \<Rightarrow> None | Some q \<Rightarrow> rejected q)\<rparr>"

text \<open>
  A promise reports failures when it is fulfilled only if every call made on its behalf
  succeeded.
\<close>

definition reports_failures :: "promise \<Rightarrow> bool" where
  "reports_failures p = (rejected p = None \<longrightarrow> (\<forall>e\<in>set (trace p). failure e = None))"

subsection \<open>The declaration\<close>

text \<open>
  The parts of the parsed declaration that the handler reads. A container that the handler
  assigns to or enumerates is an object or absent; what it only reads properties of
  (\<open>tacacs\<close>, \<open>ldap\<close>, \<open>remoteUsersDefaults\<close>) is any value.
\<close>

record radiusServers =
  primary :: "(string \<times> jsval) list option"
  secondary :: "(string \<times> jsval) list option"

record radiusDecl =
  serviceType :: jsval
  servers :: "radiusServers option"

record authDecl =
  radius :: "radiusDecl option"
  tacacs :: jsval
  ldap :: jsval
  enabledSourceType :: jsval
  fallback :: jsval
  remoteUsersDefaults :: jsval

record commonDecl =
  RemoteAuthRole :: "(string \<times> (string \<times> jsval) list) list option"
  Authentication :: "authDecl option"

record parsedDeclaration =
  Common :: "commonDecl option"

text \<open>
  The constants of sharedConstants that the handler uses (\<open>RADIUS.PRIMARY_SERVER\<close>,
  \<open>RADIUS.SECONDARY_SERVER\<close>, \<open>AUTH.SUBCLASSES_NAME\<close>), and
  \<open>Buffer.from(data, 'base64').toString().trim()\<close>.
\<close>

record handlerEnv =
  PRIMARY_SERVER :: string
  SECONDARY_SERVER :: string
  SUBCLASSES_NAME :: string
  decode :: "jsval \<Rightarrow> string"

definition simple_request :: "verb \<Rightarrow> PATHS \<Rightarrow> jsval \<Rightarrow> request" where
  "simple_request m p b =
     \<lparr>verb = m, path = p, suffix = [], body = b, iControlOptions = JUndefined,
      noRetry = False, options = JUndefined\<rparr>"

subsection \<open>The steps\<close>

text \<open>\<open>handleRemoteAuthRoles\<close> (authHandler.js:71-90): one call per role, all issued at once.\<close>

definition remoteRole :: "string \<Rightarrow> (string \<times> jsval) list \<Rightarrow> jsval" where
  "remoteRole name decl =
     JObj [(''attribute'', jget (JObj decl) ''attribute''),
           (''console'', jget (JObj decl) ''console''),
           (''deny'', JStr (if truthy (jget (JObj decl) ''remoteAccess'') then ''disabled'' else ''enabled'')),
           (''lineOrder'', jget (JObj decl) ''lineOrder''),
           (''role'', jget (JObj decl) ''role''),
           (''userPartition'', jget (JObj decl) ''userPartition''),
           (''name'', JStr name)]"

definition handleRemoteAuthRoles :: "bigIp \<Rightarrow> parsedDeclaration \<Rightarrow> nat \<Rightarrow> promise" where
  "handleRemoteAuthRoles dev declaration t =
     (case Common declaration of
        None \<Rightarrow> Promise_resolve t
      | Some c \<Rightarrow>
          (case RemoteAuthRole c of
             None \<Rightarrow> Promise_resolve t
           | Some roles \<Rightarrow>
               Promise_all t
                 (map (\<lambda>(name, decl). call dev (simple_request CreateOrModify AuthRemoteRole (remoteRole name decl)) t)
                    roles)))"

text \<open>
  \<open>handleRadius\<close> (authHandler.js:93-135). The server objects are the declared ones with
  \<open>name\<close> and \<open>partition\<close> assigned; the calls for them are issued at once, the aggregate
  object follows when both are done, and the delete of the secondary server follows the
  aggregate object when no secondary is declared.
\<close>

definition radiusServer :: "string \<Rightarrow> (string \<times> jsval) list \<Rightarrow> jsval" where
  "radiusServer name server =
     JObj (AList.update ''partition'' (JStr ''Common'') (AList.update ''name'' (JStr name) server))"

definition radiusAggregate :: "handlerEnv \<Rightarrow> radiusDecl \<Rightarrow> string list \<Rightarrow> request" where
  "radiusAggregate K r authServers =
     (simple_request CreateOrModify AuthRadius
        (JObj [(''name'', JStr (SUBCLASSES_NAME K)),
               (''serviceType'', serviceType r),
               (''servers'', JArr (map JStr authServers)),
               (''partition'', JStr ''Common'')]))
     \<lparr>options := JObj [(''silent'', JBool True)]\<rparr>"

definition radiusDeleteSecondary :: "handlerEnv \<Rightarrow> request" where
  "radiusDeleteSecondary K =
     \<lparr>verb = Delete, path = AuthRadiusServer, suffix = ''/~Common~'' @ SECONDARY_SERVER K,
      body = JNull, iControlOptions = JNull, noRetry = True, options = JUndefined\<rparr>"

definition handleRadius :: "handlerEnv \<Rightarrow> bigIp \<Rightarrow> authDecl \<Rightarrow> nat \<Rightarrow> promise" where
  "handleRadius K dev auth t =
     (case radius auth of
        None \<Rightarrow> Promise_resolve t
      | Some r \<Rightarrow>
          (case servers r of
             None \<Rightarrow> Promise_resolve t
           | Some sv \<Rightarrow>
               (case primary sv of
                  None \<Rightarrow> Promise_resolve t
                | Some p \<Rightarrow>
                    (let serverProms =
                           call dev (simple_request CreateOrModify AuthRadiusServer
                                       (radiusServer (PRIMARY_SERVER K) p)) t
                           # (case secondary sv of
                                None \<Rightarrow> []
                              | Some s \<Rightarrow>
                                  [call dev (simple_request CreateOrModify AuthRadiusServer
                                               (radiusServer (SECONDARY_SERVER K) s)) t]);
                         authServers =
                           PRIMARY_SERVER K
                           # (case secondary sv of None \<Rightarrow> [] | Some s \<Rightarrow> [SECONDARY_SERVER K])
                     in or_catch
                          (and_then
                             (and_then (Promise_all t serverProms)
                                (call dev (radiusAggregate K r authServers)))
                             (\<lambda>t'. case secondary sv of
                                      Some s \<Rightarrow> Promise_resolve t'
                                    | None \<Rightarrow> call dev (radiusDeleteSecondary K) t'))
                          Promise_reject))))"

text \<open>
  \<open>handleTacacs\<close> (authHandler.js:137-161). Its \<open>catch\<close> logs the error and returns
  nothing, so the promise it gives is fulfilled.
\<close>

definition tacacsObj :: "handlerEnv \<Rightarrow> jsval \<Rightarrow> jsval" where
  "tacacsObj K tc =
     JObj ([(''name'', JStr (SUBCLASSES_NAME K)),
            (''partition'', JStr ''Common''),
            (''accounting'', or_else (jget tc ''accounting'') (JStr ''send-to-first-server'')),
            (''authentication'', or_else (jget tc ''authentication'') (JStr ''use-first-server'')),
            (''debug'', JStr (if truthy (jget tc ''debug'') then ''enabled'' else ''disabled'')),
            (''encryption'', JStr (if jget tc ''encryption'' = JBool False then ''disabled'' else ''enabled'')),
            (''secret'', jget tc ''secret''),
            (''servers'', jget tc ''servers''),
            (''service'', jget tc ''service'')]
           @ (if truthy (jget tc ''protocol'') then [(''protocol'', jget tc ''protocol'')] else []))"

definition handleTacacs :: "handlerEnv \<Rightarrow> bigIp \<Rightarrow> authDecl \<Rightarrow> nat \<Rightarrow> promise" where
  "handleTacacs K dev auth t =
     (if \<not> truthy (tacacs auth) then Promise_resolve t
      else or_catch (call dev (simple_request CreateOrModify AuthTacacs (tacacsObj K (tacacs auth))) t)
             (\<lambda>err. Promise_resolve))"

text \<open>
  \<open>handleCert\<close> (authHandler.js:265-303): upload the file, install it, remove the upload,
  one after the other. The upload path is \<open>PATHS.Uploads\<close>, a slash and the name, so it
  ends with \<open>.key\<close> exactly when the slash and the name do.
\<close>

definition uploadCert :: "handlerEnv \<Rightarrow> string \<Rightarrow> jsval \<Rightarrow> request" where
  "uploadCert K name data =
     (let dataStr = decode K data; dataSize = int (length dataStr)
      in \<lparr>verb = Create, path = Uploads, suffix = ''/'' @ name, body = JStr dataStr,
           iControlOptions =
             JObj [(''headers'',
                    JObj [(''Content-Type'', JStr ''application/octet-stream''),
                          (''Content-Length'', JStr (int_string dataSize)),
                          (''Content-Range'',
                           JStr (''0-'' @ int_string (dataSize - 1) @ ''/'' @ int_string dataSize))])],
           noRetry = False,
           options = JObj [(''silent'', JBool (ends_with (''/'' @ name) ''.key''))]\<rparr>)"

definition createCert :: "string \<Rightarrow> PATHS \<Rightarrow> request" where
  "createCert name certPath =
     simple_request CreateOrModify certPath
       (JObj [(''name'', JStr name),
              (''sourcePath'', JStr (''file:/var/config/rest/downloads/'' @ name))])"

definition deleteCert :: "string \<Rightarrow> request" where
  "deleteCert name =
     simple_request Create UnixRm
       (JObj [(''command'', JStr ''run''),
              (''utilCmdArgs'', JStr (''/var/config/rest/downloads/'' @ name))])"

definition handleCert :: "handlerEnv \<Rightarrow> bigIp \<Rightarrow> string \<Rightarrow> jsval \<Rightarrow> PATHS \<Rightarrow> nat \<Rightarrow> promise" where
  "handleCert K dev certName certObj certPath t =
     and_then
       (and_then (call dev (uploadCert K certName (jget certObj ''base64'')) t)
          (call dev (createCert certName certPath)))
       (call dev (deleteCert certName))"

text \<open>
  \<open>handleLdap\<close> (authHandler.js:163-227). \<open>ldapObj\<close> is built first; \<open>join\<close> is a method
  of arrays only, so a truthy \<open>sslCiphers\<close> of another kind makes the handler throw, which
  rejects the step before any call. The certificate chains start at once; the auth object
  follows when all of them are done.
\<close>

definition getCertPath :: "jsval \<Rightarrow> jsval" where
  "getCertPath certObj =
     JStr (''/'' @ ToString (jget certObj ''partition'') @ ''/'' @ ToString (jget certObj ''name''))"

definition enabled :: "jsval \<Rightarrow> jsval" where
  "enabled v = JStr (if truthy v then ''enabled'' else ''disabled'')"

definition ldapObj :: "handlerEnv \<Rightarrow> jsval \<Rightarrow> error + jsval" where
  "ldapObj K l =
     (case (if truthy (jget l ''sslCiphers'')
            then (case jget l ''sslCiphers'' of
                    JArr xs \<Rightarrow> Inr (JStr (join_elements '':'' xs))
                  | other \<Rightarrow> Inl TypeError)
            else Inr (JStr [])) of
        Inl e \<Rightarrow> Inl e
      | Inr ciphers \<Rightarrow>
          Inr (JObj
            [(''name'', JStr (SUBCLASSES_NAME K)),
             (''partition'', JStr ''Common''),
             (''bindDn'', or_else (jget l ''bindDn'') (JStr ''none'')),
             (''bindPw'', or_else (jget l ''bindPassword'') (JStr ''none'')),
             (''bindTimeout'', jget l ''bindTimeout''),
             (''checkHostAttr'', enabled (jget l ''checkBindPassword'')),
             (''checkRolesGroup'', enabled (jget l ''checkRemoteRole'')),
             (''filter'', or_else (jget l ''filter'') (JStr ''none'')),
             (''groupDn'', or_else (jget l ''groupDn'') (JStr ''none'')),
             (''groupMemberAttribute'', or_else (jget l ''groupMemberAttribute'') (JStr ''none'')),
             (''idleTimeout'', jget l ''idleTimeout''),
             (''ignoreAuthInfoUnavail'',
              JStr (if truthy (jget l ''ignoreAuthInfoUnavailable'') then ''yes'' else ''no'')),
             (''ignoreUnknownUser'', enabled (jget l ''ignoreUnknownUser'')),
             (''loginAttribute'', or_else (jget l ''loginAttribute'') (JStr ''none'')),
             (''port'', jget l ''port''),
             (''scope'', jget l ''searchScope''),
             (''searchBaseDn'', or_else (jget l ''searchBaseDn'') (JStr ''none'')),
             (''searchTimeout'', jget l ''searchTimeout''),
             (''servers'', jget l ''servers''),
             (''ssl'', jget l ''ssl''),
             (''sslCaCertFile'',
              if truthy (jget l ''sslCaCert'') then getCertPath (jget l ''sslCaCert'') else JStr ''none''),
             (''sslCheckPeer'', enabled (jget l ''sslCheckPeer'')),
             (''sslCiphers'', ciphers),
             (''sslClientCert'',
              if truthy (jget l ''sslClientCert'') then getCertPath (jget l ''sslClientCert'') else JStr ''none''),
             (''sslClientKey'',
              if truthy (jget l ''sslClientKey'') then getCertPath (jget l ''sslClientKey'') else JStr ''none''),
             (''userTemplate'', or_else (jget l ''userTemplate'') (JStr ''none'')),
             (''version'', jget l ''version'')]))"

text \<open>\<open>const options = ldapObj.bindPw ? { silent: true } : {}\<close>.\<close>

definition ldapOptions :: "jsval \<Rightarrow> jsval" where
  "ldapOptions obj = (if truthy (jget obj ''bindPw'') then JObj [(''silent'', JBool True)] else JObj [])"

definition certPromise ::
  "handlerEnv \<Rightarrow> bigIp \<Rightarrow> jsval \<Rightarrow> string \<Rightarrow> string \<Rightarrow> PATHS \<Rightarrow> nat \<Rightarrow> promise list" where
  "certPromise K dev l property certName certPath t =
     (if truthy (jget l property) \<and> truthy (jget (jget l property) ''base64'')
      then [handleCert K dev certName (jget l property) certPath t]
      else [])"

definition handleLdap :: "handlerEnv \<Rightarrow> bigIp \<Rightarrow> authDecl \<Rightarrow> nat \<Rightarrow> promise" where
  "handleLdap K dev auth t =
     (if \<not> truthy (ldap auth) then Promise_resolve t
      else (case ldapObj K (ldap auth) of
              Inl e \<Rightarrow> Promise_reject e t
            | Inr obj \<Rightarrow>
                (let certPromises =
                       certPromise K dev (ldap auth) ''sslCaCert'' ''do_ldapCaCert.crt'' SSLCert t
                       @ certPromise K dev (ldap auth) ''sslClientCert'' ''do_ldapClientCert.crt'' SSLCert t
                       @ certPromise K dev (ldap auth) ''sslClientKey'' ''do_ldapClientCert.key'' SSLKey t
                 in or_catch
                      (and_then (Promise_all t certPromises)
                         (call dev ((simple_request CreateOrModify AuthLdap obj)
                                      \<lparr>options := ldapOptions obj\<rparr>)))
                      Promise_reject)))"

text \<open>\<open>handleSource\<close> (authHandler.js:229-244) and \<open>handleRemoteUsersDefaults\<close> (246-263).\<close>

definition handleSource :: "bigIp \<Rightarrow> authDecl \<Rightarrow> nat \<Rightarrow> promise" where
  "handleSource dev auth t =
     call dev (simple_request Modify AuthSource
                 (JObj [(''type'', if enabledSourceType auth = JStr ''activeDirectory''
                                   then JStr ''active-directory'' else enabledSourceType auth),
                        (''fallback'', fallback auth)])) t"

definition handleRemoteUsersDefaults :: "bigIp \<Rightarrow> authDecl \<Rightarrow> nat \<Rightarrow> promise" where
  "handleRemoteUsersDefaults dev auth t =
     (if \<not> truthy (remoteUsersDefaults auth) then Promise_resolve t
      else call dev (simple_request Modify AuthRemoteUser
                       (JObj [(''defaultPartition'', jget (remoteUsersDefaults auth) ''partitionAccess''),
                              (''defaultRole'', jget (remoteUsersDefaults auth) ''role''),
                              (''remoteConsoleAccess'', jget (remoteUsersDefaults auth) ''terminalAccess'')])) t)"

text \<open>\<open>AuthHandler.process\<close> (authHandler.js:54-68), started at time \<open>t\<close>.\<close>

definition process :: "handlerEnv \<Rightarrow> bigIp \<Rightarrow> parsedDeclaration \<Rightarrow> nat \<Rightarrow> promise" where
  "process K dev declaration t =
     (case (case Common declaration of None \<Rightarrow> None | Some c \<Rightarrow> Authentication c) of
        None \<Rightarrow> handleRemoteAuthRoles dev declaration t
      | Some auth \<Rightarrow>
          and_then
            (and_then
               (and_then
                  (and_then
                     (and_then (handleRemoteAuthRoles dev declaration t)
                        (handleRadius K dev auth))
                     (handleTacacs K dev auth))
                  (handleLdap K dev auth))
               (handleSource dev auth))
            (handleRemoteUsersDefaults dev auth))"

section \<open>Inputs for the examples\<close>

text \<open>A plain object with the properties of \<open>t\<close> and no \<open>tasks\<close> container.\<close>

definition plain_object :: "task \<Rightarrow> existing_state" where
  "plain_object t = task.extend t (existing_state.fields None)"

text \<open>
  An environment to run the loading code in: version 1.27.0-0, a comparison that finds equal
  versions equal and any other version older, one class without a name, and an identifier
  rewriting that changes nothing.
\<close>

definition sample_versionCompare :: "jsval \<Rightarrow> jsval \<Rightarrow> error + number" where
  "sample_versionCompare a b = Inr (Some (if a = b then 0 else - 1))"

definition sample_updateIds :: "string \<Rightarrow> jsval \<Rightarrow> jsval \<Rightarrow> error + jsval" where
  "sample_updateIds schemaClass config itemName = Inr config"

definition sample_env :: env where
  "sample_env = \<lparr>VERSION = ''1.27.0'', RELEASE = ''0'', versionCompare = sample_versionCompare,
     NAMELESS_CLASSES = [''System''], updateIds = sample_updateIds\<rparr>"

text \<open>
  Constants, devices and declarations to run the handler on. \<open>device_ok\<close> answers every
  request after one step; \<open>device_failing p\<close> does too, but rejects the requests to path
  \<open>p\<close>. \<open>summary\<close> lists, for each call in a trace, when it was issued and settled, its
  verb and path, and how it ended.
\<close>

definition sample_constants :: handlerEnv where
  "sample_constants = \<lparr>PRIMARY_SERVER = ''system_auth_name1'', SECONDARY_SERVER = ''system_auth_name2'',
     SUBCLASSES_NAME = ''system-auth'', decode = ToString\<rparr>"

definition device_ok :: bigIp where
  "device_ok t r = (1, None)"

definition device_failing :: "PATHS \<Rightarrow> bigIp" where
  "device_failing p t r = (1, if path r = p then Some (Error ''rejected by the device'') else None)"

definition local_auth :: authDecl where
  "local_auth = \<lparr>radius = None, tacacs = JUndefined, ldap = JUndefined,
     enabledSourceType = JStr ''local'', fallback = JBool True, remoteUsersDefaults = JUndefined\<rparr>"

definition radius_auth :: authDecl where
  "radius_auth = local_auth\<lparr>enabledSourceType := JStr ''radius'',
     radius := Some \<lparr>serviceType = JStr ''default'',
                     servers = Some \<lparr>primary = Some [(''server'', JStr ''1.2.3.4''), (''port'', JNum 1812)],
                                     secondary = None\<rparr>\<rparr>\<rparr>"

definition radius_auth2 :: authDecl where
  "radius_auth2 = local_auth\<lparr>enabledSourceType := JStr ''radius'',
     radius := Some \<lparr>serviceType = JStr ''default'',
                     servers = Some \<lparr>primary = Some [(''server'', JStr ''1.2.3.4'')],
                                     secondary = Some [(''server'', JStr ''1.2.3.5'')]\<rparr>\<rparr>\<rparr>"

definition ldap_auth :: authDecl where
  "ldap_auth = local_auth\<lparr>enabledSourceType := JStr ''ldap'',
     ldap := JObj [(''servers'', JArr [JStr ''my.host.com'']),
                   (''sslCaCert'', JObj [(''base64'', JStr ''ZjVmYWtlY2VydA==''),
                                         (''partition'', JStr ''Common''),
                                         (''name'', JStr ''do_ldapCaCert.crt'')])]\<rparr>"

definition tacacs_auth :: authDecl where
  "tacacs_auth = local_auth\<lparr>enabledSourceType := JStr ''tacacs'',
     tacacs := JObj [(''servers'', JArr [JStr ''my.host.com'']), (''service'', JStr ''ppp''),
                     (''secret'', JStr ''test'')]\<rparr>"

definition summary :: "promise \<Rightarrow> (nat \<times> nat \<times> verb \<times> PATHS \<times> error option) list" where
  "summary p = map (\<lambda>e. (issued e, settled e, verb (req e), path (req e), failure e)) (trace p)"

section \<open>Properties of the state store\<close>

text \<open>The definitions that an evaluation of the store on concrete data unfolds.\<close>

lemmas eval_defs = new_State_def copyAndUpgradeState_def as_existing_def addTask_def empty_State_def
      cleanupOldTasks_def cleanup_step_def expired_def js_gt_def js_minus_def js_lt_def maxAge_def
      TASK_RETENTION_DAYS_def empty_object_def empty_result_def task.defs existing_state.defs
      updateNewIdToId_def assign_props_def json_copy_task_def json_copy_result_def json_props_def
      json_elems_def getTaskIds_def getLastUpdate_def getTask_def lookup_def AList.delete_eq plain_object_def
      sample_env_def sample_versionCompare_def sample_updateIds_def migrate_entry_def
      migrate_class_def doVersionStr_def store_def

subsection \<open>Retention\<close>

lemma map_of_cleanup_step:
  "map_of (cleanup_step now k' ts) k =
     (if k = k' \<and> (case map_of ts k of Some t \<Rightarrow> expired now t | None \<Rightarrow> False)
      then None else map_of ts k)"
  by (auto simp: cleanup_step_def AList.delete_conv' split: option.splits)

lemma map_of_fold_cleanup_step:
  "map_of (fold (cleanup_step now) ks ts) k =
     (if k \<in> set ks \<and> (case map_of ts k of Some t \<Rightarrow> expired now t | None \<Rightarrow> False)
      then None else map_of ts k)"
proof (induction ks arbitrary: ts)
  case Nil
  show ?case by simp
next
  case (Cons a ks)
  show ?case
    by (simp add: Cons.IH map_of_cleanup_step split: option.splits)
qed

text \<open>The table after the purge: a task stays exactly when the test does not fire for it.\<close>

lemma map_of_cleanupOldTasks:
  "map_of (cleanupOldTasks ts now) k =
     (case map_of ts k of
        None \<Rightarrow> None
      | Some t \<Rightarrow> if expired now t then None else Some t)"
proof (cases "map_of ts k")
  case None
  then show ?thesis by (simp add: cleanupOldTasks_def map_of_fold_cleanup_step)
next
  case (Some t)
  then have "k \<in> set (map fst ts)"
    by (metis map_of_eq_None_iff option.distinct(1) set_map)
  with Some show ?thesis by (simp add: cleanupOldTasks_def map_of_fold_cleanup_step)
qed

lemma mem_keys_iff: "k \<in> set (map fst ts) \<longleftrightarrow> map_of ts k \<noteq> None"
  by (simp add: map_of_eq_None_iff)

text \<open>The read \<open>this.tasks[taskId]\<close> finds a task exactly under an own key.\<close>

lemma lookup_Own_iff: "lookup proto s taskId = Own t \<longleftrightarrow> map_of (tasks s) taskId = Some t"
  by (simp add: lookup_def split: option.splits)

lemma getTask_Own: "getTask proto s taskId = Own t \<Longrightarrow> map_of (tasks s) taskId = Some t"
  by (simp add: getTask_def lookup_Own_iff)

lemma lookup_own: "map_of (tasks s) taskId = Some t \<Longrightarrow> lookup proto s taskId = Own t"
  by (simp add: lookup_Own_iff)

lemma lookup_Missing:
  assumes "taskId \<notin> set (getTaskIds s)" and "proto taskId = None"
  shows "lookup proto s taskId = Missing"
proof -
  from assms(1) have "map_of (tasks s) taskId = None"
    by (simp add: getTaskIds_def map_of_eq_None_iff)
  with assms(2) show ?thesis
    by (simp add: lookup_def)
qed

text \<open>
  A task stamped with a \<open>Date\<close> object is purged by the next \<open>addTask\<close> exactly when it is
  more than seven days old at the time of the purge (the new id being another one).
\<close>

lemma addTask_purges_Date:
  assumes "getTask proto s k = Own t" and "lastUpdate t = Some (DateObj u)" and "taskId \<noteq> k"
  shows "k \<in> set (getTaskIds (snd (addTask s taskId t_new t_cleanup))) \<longleftrightarrow> t_cleanup - u \<le> maxAge"
proof -
  from assms(1) have "map_of (tasks s) k = Some t"
    by (rule getTask_Own)
  with assms(2,3) show ?thesis
    by (auto simp add: addTask_def getTaskIds_def mem_keys_iff map_of_cleanupOldTasks
        AList.update_conv' expired_def js_gt_def js_minus_def simp del: set_map)
qed

theorem addTask_purges_Date_witness:
  "getTask Object_prototype (snd (addTask empty_State ''a'' 0 0)) ''a'' =
      Own (empty_object\<lparr>id' := JStr ''a'', lastUpdate := Some (DateObj 0),
              result := Some empty_result, internalDeclaration := JObj []\<rparr>)
   \<and> lastUpdate (empty_object\<lparr>id' := JStr ''a'', lastUpdate := Some (DateObj 0),
              result := Some empty_result, internalDeclaration := JObj []\<rparr>) = Some (DateObj 0)
   \<and> ''b'' \<noteq> ''a''
   \<and> \<not> (691200000 - 0 \<le> maxAge)
   \<and> ''a'' \<notin> set (getTaskIds (snd (addTask (snd (addTask empty_State ''a'' 0 0)) ''b'' 691200000 691200000)))"
proof -
  let ?t = "empty_object\<lparr>id' := JStr ''a'', lastUpdate := Some (DateObj 0),
              result := Some empty_result, internalDeclaration := JObj []\<rparr>"
  have h1: "getTask Object_prototype (snd (addTask empty_State ''a'' 0 0)) ''a'' = Own ?t"
    by (simp add: eval_defs)
  have h2: "lastUpdate ?t = Some (DateObj 0)"
    by simp
  have h3: "''b'' \<noteq> ''a''"
    by simp
  have h4: "\<not> (691200000 - 0 \<le> maxAge)"
    by (simp add: maxAge_def TASK_RETENTION_DAYS_def)
  from addTask_purges_Date [OF h1 h2 h3, of 691200000 691200000] h4
  have "''a'' \<notin> set (getTaskIds (snd (addTask (snd (addTask empty_State ''a'' 0 0)) ''b'' 691200000 691200000)))"
    by simp
  with h1 h2 h3 h4 show ?thesis by (intro conjI)
qed

text \<open>
  A task whose \<open>lastUpdate\<close> is the string left by a JSON copy is kept however old it is:
  the difference in the test is \<open>NaN\<close>.
\<close>

lemma addTask_keeps_DateString:
  assumes "getTask proto s k = Own t" and "lastUpdate t = Some (DateString u)" and "taskId \<noteq> k"
  shows "k \<in> set (getTaskIds (snd (addTask s taskId t_new t_cleanup)))"
proof -
  from assms(1) have "map_of (tasks s) k = Some t"
    by (rule getTask_Own)
  with assms(2,3) show ?thesis
    by (auto simp add: addTask_def getTaskIds_def mem_keys_iff map_of_cleanupOldTasks
        AList.update_conv' expired_def js_gt_def js_minus_def simp del: set_map)
qed

text \<open>
  Claim C1 (a task whose \<open>lastUpdate\<close> is more than 7 days in the past is absent from
  \<open>getTaskIds\<close> after any later \<open>addTask\<close>), evaluated where the code departs from it. Task
  \<open>a\<close> is added at time 0. The state is then handed to the constructor, as it is whenever a
  state is re-created from its data; the copy it makes turns the task's \<open>lastUpdate\<close> into a
  string. Eight days later (691200000 ms) \<open>addTask\<close> keeps \<open>a\<close>. On the state that did not
  go through the constructor the same call purges \<open>a\<close>.
\<close>

theorem addTask_keeps_stale_task_of_reloaded_state:
  "(case new_State E (Some (as_existing (snd (addTask empty_State ''a'' 0 0)))) u n of
      Inl e \<Rightarrow> False
    | Inr s \<Rightarrow> getLastUpdate proto s ''a'' = Inr (Some (DateString 0))
             \<and> getTaskIds (snd (addTask s ''b'' 691200000 691200000)) = [''a'', ''b''])
   \<and> getTaskIds (snd (addTask (snd (addTask empty_State ''a'' 0 0)) ''b'' 691200000 691200000)) = [''b'']"
  by (simp add: new_State_def copyAndUpgradeState_def as_existing_def addTask_def empty_State_def
      cleanupOldTasks_def cleanup_step_def expired_def js_gt_def js_minus_def maxAge_def
      TASK_RETENTION_DAYS_def empty_object_def empty_result_def task.defs existing_state.defs
      updateNewIdToId_def assign_props_def json_copy_task_def json_copy_result_def json_props_def
      getTaskIds_def getLastUpdate_def lookup_def AList.delete_eq)

subsection \<open>The task just added\<close>

text \<open>
  Claim C10: after \<open>addTask\<close> returns an id, that id is \<open>mostRecentTask\<close>, and the table holds
  under it a task with an empty \<open>result\<close>, an empty \<open>internalDeclaration\<close> and the time of the
  call as \<open>lastUpdate\<close>; the purge inside \<open>addTask\<close> does not remove it. The two clock readings
  of the call (the stamp and the purge) are taken to be no more than the retention window
  apart, as they are when one call reads the clock twice.
\<close>

theorem addTask_new_task:
  assumes "t_cleanup - t_new \<le> maxAge"
  shows "fst (addTask s taskId t_new t_cleanup) = taskId
       \<and> mostRecentTask (snd (addTask s taskId t_new t_cleanup)) = JStr taskId
       \<and> getTask proto (snd (addTask s taskId t_new t_cleanup)) taskId =
           Own (empty_object\<lparr>id' := JStr taskId, lastUpdate := Some (DateObj t_new),
                   result := Some empty_result, internalDeclaration := JObj []\<rparr>)
       \<and> taskId \<in> set (getTaskIds (snd (addTask s taskId t_new t_cleanup)))"
  using assms
  by (simp add: addTask_def getTask_def lookup_def getTaskIds_def mem_keys_iff map_of_cleanupOldTasks
      AList.update_conv' expired_def js_gt_def js_minus_def del: set_map)

theorem addTask_new_task_witness:
  "(5::int) - 5 \<le> maxAge
   \<and> fst (addTask empty_State ''a'' 5 5) = ''a''
   \<and> mostRecentTask (snd (addTask empty_State ''a'' 5 5)) = JStr ''a''
   \<and> getTask Object_prototype (snd (addTask empty_State ''a'' 5 5)) ''a'' =
       Own (empty_object\<lparr>id' := JStr ''a'', lastUpdate := Some (DateObj 5),
               result := Some empty_result, internalDeclaration := JObj []\<rparr>)
   \<and> ''a'' \<in> set (getTaskIds (snd (addTask empty_State ''a'' 5 5)))"
proof -
  have h: "(5::int) - 5 \<le> maxAge"
    by (simp add: maxAge_def TASK_RETENTION_DAYS_def)
  from addTask_new_task [OF h, of empty_State "''a''" Object_prototype] h show ?thesis
    by blast
qed

subsection \<open>Unknown task identifiers\<close>

lemmas accessor_defs = setCurrentConfig_def getCurrentConfig_def getOriginalConfigByTaskId_def
  setCode_def getCode_def setMessage_def getMessage_def setStatus_def getStatus_def setErrors_def
  getErrors_def setDeclaration_def setRebootRequired_def getRebootRequired_def
  setRequestOptions_def getRequestOptions_def setRollbackInfo_def getRollbackInfo_def
  setTraceCurrent_def getTraceCurrent_def setTraceDesired_def getTraceDesired_def
  setTraceDiff_def getTraceDiff_def hasTrace_def getDeclaration_def getLastUpdate_def
  updateResult_def getTask_def

text \<open>
  Claim C2, as amended: for a task identifier that is not in the table and under which the
  table inherits nothing from \<open>Object.prototype\<close>, every accessor throws
  \<open>taskId does not exist\<close>, with two exceptions: \<open>getTask\<close> returns \<open>undefined\<close>, and
  \<open>setRollbackInfo\<close> throws only when its argument is truthy and otherwise returns with the
  state unchanged.
\<close>

theorem unknown_task:
  assumes "taskId \<notin> set (getTaskIds s)" and "proto taskId = None"
  shows "setCurrentConfig proto s taskId v = Inl not_found
       \<and> getCurrentConfig proto s taskId = Inl not_found
       \<and> getOriginalConfigByTaskId proto s taskId = Inl not_found
       \<and> setCode proto s taskId v = Inl not_found
       \<and> getCode proto s taskId = Inl not_found
       \<and> setMessage proto s taskId v = Inl not_found
       \<and> getMessage proto s taskId = Inl not_found
       \<and> setStatus proto s taskId v = Inl not_found
       \<and> getStatus proto s taskId = Inl not_found
       \<and> setErrors proto s taskId errs = Inl not_found
       \<and> getErrors proto s taskId = Inl not_found
       \<and> setDeclaration doUtil_mask proto s taskId v = Inl not_found
       \<and> getDeclaration proto s taskId = Inl not_found
       \<and> setRebootRequired proto s taskId v = Inl not_found
       \<and> getRebootRequired proto s taskId = Inl not_found
       \<and> setRequestOptions proto s taskId v = Inl not_found
       \<and> getRequestOptions proto s taskId = Inl not_found
       \<and> getRollbackInfo proto s taskId = Inl not_found
       \<and> setTraceCurrent proto s taskId v = Inl not_found
       \<and> getTraceCurrent proto s taskId = Inl not_found
       \<and> setTraceDesired proto s taskId v = Inl not_found
       \<and> getTraceDesired proto s taskId = Inl not_found
       \<and> setTraceDiff proto s taskId v = Inl not_found
       \<and> getTraceDiff proto s taskId = Inl not_found
       \<and> hasTrace proto s taskId = Inl not_found
       \<and> getLastUpdate proto s taskId = Inl not_found
       \<and> updateResult proto s taskId c st m e now = Inl not_found
       \<and> setRollbackInfo proto s taskId v = (if truthy v then Inl not_found else Inr s)
       \<and> getTask proto s taskId = Missing"
proof -
  from assms have "lookup proto s taskId = Missing"
    by (rule lookup_Missing)
  then show ?thesis by (simp add: accessor_defs)
qed

theorem unknown_task_witness:
  "''nope'' \<notin> set (getTaskIds empty_State)
   \<and> Object_prototype ''nope'' = None
   \<and> setCode Object_prototype empty_State ''nope'' (JNum 200) = Inl not_found
   \<and> getCode Object_prototype empty_State ''nope'' = Inl not_found
   \<and> getDeclaration Object_prototype empty_State ''nope'' = Inl not_found
   \<and> updateResult Object_prototype empty_State ''nope'' (JNum 200) JNull JNull JNull 0 = Inl not_found
   \<and> setRollbackInfo Object_prototype empty_State ''nope'' (JObj []) = Inl not_found
   \<and> getTask Object_prototype empty_State ''nope'' = Missing"
proof -
  have h: "''nope'' \<notin> set (getTaskIds empty_State)"
    by (simp add: getTaskIds_def empty_State_def)
  have p: "Object_prototype ''nope'' = None"
    by (simp add: Object_prototype_def)
  from unknown_task [where proto = Object_prototype and v = "JNum 200", OF h p]
    unknown_task [where proto = Object_prototype and v = "JObj []", OF h p] h p
  show ?thesis
    by simp
qed

text \<open>
  The claim as stated fails: on the empty state, \<open>setRollbackInfo\<close> with an \<open>undefined\<close>
  argument returns normally for an identifier that does not exist, and \<open>getTask\<close> returns
  \<open>undefined\<close>.
\<close>

theorem unknown_task_counterexample:
  "''nope'' \<notin> set (getTaskIds empty_State)
   \<and> setRollbackInfo Object_prototype empty_State ''nope'' JUndefined = Inr empty_State
   \<and> setRollbackInfo Object_prototype empty_State ''nope'' JUndefined \<noteq> Inl not_found
   \<and> getTask Object_prototype empty_State ''nope'' = Missing"
  by (simp add: getTaskIds_def empty_State_def setRollbackInfo_def getTask_def lookup_def
      Object_prototype_def)

text \<open>
  The amended claim leaves out the identifiers that name a member of \<open>Object.prototype\<close>.
  Under such a name the test \<open>if (this.tasks[taskId])\<close> passes although the table holds no such
  task. On the empty state, with the prototype as the engine provides it: \<open>getTask\<close> returns
  the member, a getter of a task property returns \<open>undefined\<close>, an accessor of \<open>result\<close> and
  an \<open>updateResult\<close> with a truthy argument end in a \<open>TypeError\<close>, and a setter of a task
  property returns normally, having assigned on the member. None of them throws
  \<open>taskId does not exist\<close>.
\<close>

lemma inherited_task_id:
  "''constructor'' \<notin> set (getTaskIds empty_State)
   \<and> getTask Object_prototype empty_State ''constructor'' = Inherited empty_object
   \<and> getCurrentConfig Object_prototype empty_State ''constructor'' = Inr JUndefined
   \<and> getRebootRequired Object_prototype empty_State ''__proto__'' = Inr JUndefined
   \<and> getCode Object_prototype empty_State ''constructor'' = Inl TypeError
   \<and> setCode Object_prototype empty_State ''toString'' (JNum 200) = Inl TypeError
   \<and> updateResult Object_prototype empty_State ''constructor'' (JNum 200) JNull JNull JNull 0
       = Inl TypeError
   \<and> updateResult Object_prototype empty_State ''constructor'' JNull JNull JNull JNull 0
       = Inr empty_State
   \<and> setRebootRequired Object_prototype empty_State ''constructor'' (JBool True) = Inr empty_State
   \<and> setDeclaration doUtil_mask Object_prototype empty_State ''valueOf'' (JObj []) = Inr empty_State"
  by (simp add: getTaskIds_def empty_State_def accessor_defs lookup_def Object_prototype_def
      empty_object_def)

subsection \<open>Loading and migration\<close>

lemma json_value_id: "is_json v \<Longrightarrow> json_value v = v"
proof (induction v rule: json_value.induct)
  case (1 xs)
  then have "\<forall>x\<in>set xs. x \<noteq> JUndefined \<and> json_value x = x"
    by (force simp: list_all_iff)
  then show ?case by (auto intro!: map_idI)
next
  case (2 kvs)
  then have *: "\<forall>(k, v)\<in>set kvs. v \<noteq> JUndefined \<and> json_value v = v"
    by (force simp: list_all_iff)
  then have "filter (\<lambda>(k, v). v \<noteq> JUndefined) kvs = kvs"
    by (auto intro!: filter_True)
  moreover have "map (\<lambda>(k, v). (k, json_value v)) kvs = kvs"
    using * by (auto intro!: map_idI)
  ultimately show ?case by simp
qed simp_all

lemma map_result_Inr_iff:
  "map_result f xs = Inr ys \<longleftrightarrow> list_all2 (\<lambda>x y. f x = Inr y) xs ys"
proof (induction xs arbitrary: ys)
  case Nil
  show ?case by auto
next
  case (Cons x xs)
  show ?case
    by (cases ys) (auto simp: Cons.IH [symmetric] split: sum.splits)
qed

lemma assign_props_Inr_iff:
  "assign_props f kvs = Inr kvs' \<longleftrightarrow>
     list_all2 (\<lambda>(k, v) (k', v'). k' = k \<and> f k v = Inr v') kvs kvs'"
proof -
  have "(\<lambda>x y. (case x of (k, v) \<Rightarrow> case f k v of Inl e \<Rightarrow> Inl e | Inr v' \<Rightarrow> Inr (k, v')) = Inr y)
      = (\<lambda>(k, v) (k', v'). k' = k \<and> f k v = Inr v')"
    by (auto simp: fun_eq_iff split: sum.splits)
  then show ?thesis
    by (simp add: assign_props_def map_result_Inr_iff)
qed

lemma json_value_JObj: "json_value (JObj kvs) = JObj (json_props kvs)"
  by (simp add: json_props_def)

lemma map_of_json_props:
  "map_of kvs k = Some v \<Longrightarrow> v \<noteq> JUndefined \<Longrightarrow> map_of (json_props kvs) k = Some (json_value v)"
  by (induction kvs) (auto simp: json_props_def)

lemma doVersionStr_truthy: "doVersionStr E \<noteq> []"
  by (simp add: doVersionStr_def)

lemma migrate_entry_current:
  assumes "versionCompare E (JStr (doVersionStr E)) (JStr (doVersionStr E)) = Inr c"
    and "\<not> js_lt c (Some 0)"
    and "map_of kvs ''version'' = Some (JStr (doVersionStr E))"
  shows "migrate_entry E (JObj kvs) = Inr (JObj kvs)"
  using assms by (simp add: migrate_entry_def doVersionStr_truthy)

text \<open>An entry whose version is not older than the running one is left as it is.\<close>

lemma migrate_entry_not_older:
  assumes "read_prop e ''version'' = Inr v"
    and "versionCompare E (if truthy v then v else JStr ''0.0.0-0'') (JStr (doVersionStr E)) = Inr c"
    and "\<not> js_lt c (Some 0)"
  shows "migrate_entry E e = Inr e"
  using assms by (simp add: migrate_entry_def)

text \<open>
  What the migration does to an entry: nothing, or it stamps the running version on it and
  replaces its \<open>Common\<close> container.
\<close>

lemma migrate_entry_cases:
  assumes "migrate_entry E e = Inr e'"
  shows "e' = e \<or> (\<exists>kvs oc'. e' = JObj (AList.update ''Common'' oc'
                      (AList.update ''version'' (JStr (doVersionStr E)) kvs)) \<and> oc' \<noteq> JUndefined)"
proof -
  have nu: "assign_each f v = Inr w \<Longrightarrow> w \<noteq> JUndefined" for f v w
    by (cases v) (auto split: sum.splits list.splits)
  from assms show ?thesis
    by (auto simp: migrate_entry_def split: sum.splits if_splits jsval.splits option.splits dest: nu)
qed

lemma migrate_entry_not_undefined: "migrate_entry E e = Inr e' \<Longrightarrow> e' \<noteq> JUndefined"
  by (auto simp: migrate_entry_def split: sum.splits if_splits jsval.splits option.splits)

lemma migrate_entry_idem:
  assumes "versionCompare E (JStr (doVersionStr E)) (JStr (doVersionStr E)) = Inr c"
    and "\<not> js_lt c (Some 0)"
    and "migrate_entry E e = Inr e'"
  shows "migrate_entry E e' = Inr e'"
  using migrate_entry_cases [OF assms(3)]
proof
  assume "e' = e"
  with assms(3) show ?thesis by simp
next
  assume "\<exists>kvs oc'. e' = JObj (AList.update ''Common'' oc'
            (AList.update ''version'' (JStr (doVersionStr E)) kvs)) \<and> oc' \<noteq> JUndefined"
  then obtain kvs oc' where e': "e' = JObj (AList.update ''Common'' oc'
            (AList.update ''version'' (JStr (doVersionStr E)) kvs))" by blast
  show ?thesis unfolding e'
    by (rule migrate_entry_current [OF assms(1,2)]) (simp add: AList.update_conv')
qed

lemma migrate_entry_json:
  assumes "versionCompare E (JStr (doVersionStr E)) (JStr (doVersionStr E)) = Inr c"
    and "\<not> js_lt c (Some 0)"
    and "is_json e"
    and "migrate_entry E e = Inr e'"
  shows "migrate_entry E (json_value e') = Inr (json_value e')"
  using migrate_entry_cases [OF assms(4)]
proof
  assume "e' = e"
  with assms(3,4) show ?thesis by (simp add: json_value_id)
next
  assume "\<exists>kvs oc'. e' = JObj (AList.update ''Common'' oc'
            (AList.update ''version'' (JStr (doVersionStr E)) kvs)) \<and> oc' \<noteq> JUndefined"
  then obtain kvs oc' where e': "e' = JObj (AList.update ''Common'' oc'
            (AList.update ''version'' (JStr (doVersionStr E)) kvs))" by blast
  show ?thesis unfolding e' json_value_JObj
    by (rule migrate_entry_current [OF assms(1,2)])
      (simp add: map_of_json_props [where v = "JStr (doVersionStr E)", simplified] AList.update_conv')
qed

text \<open>
  The migration function itself is idempotent on any data, as soon as the comparison finds
  the running version not older than itself.
\<close>

lemma updateNewIdToId_idem:
  assumes "versionCompare E (JStr (doVersionStr E)) (JStr (doVersionStr E)) = Inr c"
    and "\<not> js_lt c (Some 0)"
    and "updateNewIdToId E oc = Inr oc'"
  shows "updateNewIdToId E oc' = Inr oc'"
proof -
  from assms(3) have "list_all2 (\<lambda>(k, v) (k', v'). k' = k \<and> migrate_entry E v = Inr v') oc oc'"
    by (simp add: updateNewIdToId_def assign_props_Inr_iff)
  then have "\<forall>(k', v')\<in>set oc'. migrate_entry E v' = Inr v'"
    by (induction rule: list_all2_induct) (auto dest: migrate_entry_idem [OF assms(1,2)])
  then show ?thesis
    by (auto simp: updateNewIdToId_def assign_props_Inr_iff list_all2_same)
qed

theorem updateNewIdToId_idem_witness:
  "versionCompare sample_env (JStr (doVersionStr sample_env)) (JStr (doVersionStr sample_env)) = Inr (Some 0)
   \<and> \<not> js_lt (Some 0) (Some 0)
   \<and> updateNewIdToId sample_env [(''machine'', JObj [(''Common'', JObj [(''System'', JObj [])])])]
       = Inr [(''machine'', JObj [(''Common'', JObj [(''System'', JObj [])]), (''version'', JStr ''1.27.0-0'')])]
   \<and> updateNewIdToId sample_env
         [(''machine'', JObj [(''Common'', JObj [(''System'', JObj [])]), (''version'', JStr ''1.27.0-0'')])]
       = Inr [(''machine'', JObj [(''Common'', JObj [(''System'', JObj [])]), (''version'', JStr ''1.27.0-0'')])]"
proof -
  have h1: "versionCompare sample_env (JStr (doVersionStr sample_env)) (JStr (doVersionStr sample_env)) = Inr (Some 0)"
    by (simp add: sample_env_def sample_versionCompare_def)
  have h2: "\<not> js_lt (Some 0) (Some 0)"
    by (simp add: js_lt_def)
  have h3: "updateNewIdToId sample_env [(''machine'', JObj [(''Common'', JObj [(''System'', JObj [])])])]
       = Inr [(''machine'', JObj [(''Common'', JObj [(''System'', JObj [])]), (''version'', JStr ''1.27.0-0'')])]"
    by (simp add: eval_defs)
  from h1 h2 h3 updateNewIdToId_idem [OF h1 h2 h3] show ?thesis
    by (intro conjI)
qed

lemma updateNewIdToId_json:
  assumes "versionCompare E (JStr (doVersionStr E)) (JStr (doVersionStr E)) = Inr c"
    and "\<not> js_lt c (Some 0)"
    and "list_all (\<lambda>(k, v). is_json v) oc"
    and "updateNewIdToId E oc = Inr oc'"
  shows "updateNewIdToId E (json_props oc') = Inr (json_props oc')"
proof -
  from assms(4) have "list_all2 (\<lambda>(k, v) (k', v'). k' = k \<and> migrate_entry E v = Inr v') oc oc'"
    by (simp add: updateNewIdToId_def assign_props_Inr_iff)
  then have "\<forall>(k', v')\<in>set oc'. v' \<noteq> JUndefined \<and> migrate_entry E (json_value v') = Inr (json_value v')"
    using assms(3)
    by (induction rule: list_all2_induct)
      (auto dest: migrate_entry_json [OF assms(1,2)] migrate_entry_not_undefined)
  then have "\<forall>(k', v')\<in>set (json_props oc'). migrate_entry E v' = Inr v'"
    by (auto simp: json_props_def)
  then show ?thesis
    by (auto simp: updateNewIdToId_def assign_props_Inr_iff list_all2_same)
qed

lemma json_value_eq_undefined: "json_value v = JUndefined \<longleftrightarrow> v = JUndefined"
  by (cases v) auto

lemma json_value_idem: "json_value (json_value v) = json_value v"
proof (induction v rule: json_value.induct)
  case (1 xs)
  then show ?case by (auto simp: json_value_eq_undefined)
next
  case (2 kvs)
  have "filter (\<lambda>(k, v). v \<noteq> JUndefined)
          (map (\<lambda>(k, v). (k, json_value v)) (filter (\<lambda>(k, v). v \<noteq> JUndefined) kvs))
        = map (\<lambda>(k, v). (k, json_value v)) (filter (\<lambda>(k, v). v \<noteq> JUndefined) kvs)"
    by (auto intro!: filter_True simp: json_value_eq_undefined)
  with 2 show ?case by auto
qed simp_all

lemma json_props_idem: "json_props (json_props kvs) = json_props kvs"
  using json_value_idem [of "JObj kvs"] by (simp add: json_props_def)

lemma json_elems_idem: "json_elems (json_elems xs) = json_elems xs"
  using json_value_idem [of "JArr xs"] by (simp add: json_elems_def)

lemma toJSON_idem: "toJSON (toJSON d) = toJSON d"
  by (cases d) auto

lemma json_copy_result_idem: "json_copy_result (json_copy_result r) = json_copy_result r"
  by (cases "errors r") (simp_all add: json_copy_result_def json_value_idem json_elems_idem)

lemma json_copy_task_idem: "json_copy_task (json_copy_task t) = json_copy_task t"
  by (simp add: json_copy_task_def json_value_idem json_props_idem toJSON_idem
      json_copy_result_idem option.map_comp comp_def)

text \<open>
  Claim C6, as amended: constructing a State from an object without a \<open>tasks\<close> container
  throws when the migration of its \<open>originalConfig\<close> entries throws, and otherwise gives a
  state whose table holds exactly one task, recorded as \<open>mostRecentTask\<close> under the fresh
  id. That task is the JSON copy of the whole object with \<open>id\<close> set to the fresh id and
  \<open>lastUpdate\<close> to the time of the call: every other property of the object is kept, an
  \<open>id\<close> or a \<open>lastUpdate\<close> that the object had is overwritten.
\<close>

theorem legacy_state_wrapped:
  assumes "tasks' es = None"
  shows "new_State E (Some es) taskId now =
     (case updateNewIdToId E (case originalConfig' es of Some oc \<Rightarrow> oc | None \<Rightarrow> []) of
        Inl e \<Rightarrow> Inl e
      | Inr oc' \<Rightarrow>
          Inr \<lparr>originalConfig = json_props oc',
               tasks = [(taskId, (json_copy_task (task.truncate es))
                                   \<lparr>lastUpdate := Some (DateString now), id' := JStr taskId\<rparr>)],
               mostRecentTask = JStr taskId\<rparr>)"
proof -
  have "json_copy_task ((json_copy_task (task.truncate es))\<lparr>lastUpdate := Some (DateObj now), id' := JStr taskId\<rparr>)
      = (json_copy_task (task.truncate es))\<lparr>lastUpdate := Some (DateString now), id' := JStr taskId\<rparr>"
    by (simp add: json_copy_task_def json_value_idem json_props_idem toJSON_idem
        json_copy_result_idem option.map_comp comp_def)
  with assms show ?thesis
    by (simp add: new_State_def copyAndUpgradeState_def split: sum.splits)
qed

theorem legacy_state_wrapped_witness:
  "tasks' (plain_object (empty_object\<lparr>result := Some (empty_result\<lparr>code := JNum 200\<rparr>),
              internalDeclaration := JObj [(''schemaVersion'', JStr ''1.0.0'')]\<rparr>)) = None
   \<and> new_State sample_env
        (Some (plain_object (empty_object\<lparr>result := Some (empty_result\<lparr>code := JNum 200\<rparr>),
              internalDeclaration := JObj [(''schemaVersion'', JStr ''1.0.0'')]\<rparr>))) ''fresh'' 7
     = Inr \<lparr>originalConfig = [],
            tasks = [(''fresh'', empty_object\<lparr>result := Some (empty_result\<lparr>code := JNum 200\<rparr>),
                       internalDeclaration := JObj [(''schemaVersion'', JStr ''1.0.0'')],
                       lastUpdate := Some (DateString 7), id' := JStr ''fresh''\<rparr>)],
            mostRecentTask = JStr ''fresh''\<rparr>"
proof -
  let ?es = "plain_object (empty_object\<lparr>result := Some (empty_result\<lparr>code := JNum 200\<rparr>),
              internalDeclaration := JObj [(''schemaVersion'', JStr ''1.0.0'')]\<rparr>)"
  have h: "tasks' ?es = None"
    by (simp add: plain_object_def task.defs existing_state.defs)
  from legacy_state_wrapped [OF h, of sample_env "''fresh''" 7] h show ?thesis
    by (simp add: eval_defs)
qed

text \<open>
  The claim as stated (no field of the legacy state is discarded) fails for an object that
  has an \<open>id\<close> of its own: the task made from it carries the fresh id instead.
\<close>

theorem legacy_state_wrapped_counterexample:
  "tasks' (plain_object (empty_object\<lparr>id' := JStr ''legacy''\<rparr>)) = None
   \<and> (case new_State sample_env (Some (plain_object (empty_object\<lparr>id' := JStr ''legacy''\<rparr>))) ''fresh'' 7 of
        Inl e \<Rightarrow> False
      | Inr s \<Rightarrow> (case getTask Object_prototype s ''fresh'' of
                    Own t \<Rightarrow> id' t = JStr ''fresh''
                      \<and> id' t \<noteq> id' (plain_object (empty_object\<lparr>id' := JStr ''legacy''\<rparr>))
                  | Inherited m \<Rightarrow> False
                  | Missing \<Rightarrow> False))"
  by (simp add: eval_defs)

text \<open>
  Claim C7: the migration of the \<open>originalConfig\<close> entries is idempotent. A State built by
  the constructor, handed to the constructor again, comes back unchanged: an entry stamped
  with the running version is not older than it and is left as it is. The comparison of the
  cloud library is taken to find the running version not older than itself, and the object
  first loaded to hold JSON data, as persisted state does.
\<close>

theorem migration_idempotent:
  assumes "versionCompare E (JStr (doVersionStr E)) (JStr (doVersionStr E)) = Inr c"
    and "\<not> js_lt c (Some 0)"
    and "list_all (\<lambda>(k, v). is_json v) (case originalConfig' es of Some oc \<Rightarrow> oc | None \<Rightarrow> [])"
    and "new_State E (Some es) taskId now = Inr s"
  shows "new_State E (Some (as_existing s)) taskId' now' = Inr s"
proof -
  let ?oc = "case originalConfig' es of Some oc \<Rightarrow> oc | None \<Rightarrow> []"
  from assms(4) obtain oc' ts r where m: "updateNewIdToId E ?oc = Inr oc'"
    and s: "s = \<lparr>originalConfig = json_props oc',
                 tasks = map (\<lambda>(k, t). (k, json_copy_task t)) ts,
                 mostRecentTask = json_value r\<rparr>"
    by (auto simp: new_State_def copyAndUpgradeState_def Let_def split: sum.splits)
  have "updateNewIdToId E (json_props oc') = Inr (json_props oc')"
    by (rule updateNewIdToId_json [OF assms(1,2,3) m])
  moreover have "map (\<lambda>(k, t). (k, json_copy_task t)) (map (\<lambda>(k, t). (k, json_copy_task t)) ts)
      = map (\<lambda>(k, t). (k, json_copy_task t)) ts"
    by (auto simp: json_copy_task_idem)
  ultimately show ?thesis
    by (simp add: new_State_def copyAndUpgradeState_def as_existing_def s json_props_idem
        json_value_idem task.defs existing_state.defs empty_object_def)
qed

theorem migration_idempotent_witness:
  "versionCompare sample_env (JStr (doVersionStr sample_env)) (JStr (doVersionStr sample_env)) = Inr (Some 0)
   \<and> \<not> js_lt (Some 0) (Some 0)
   \<and> list_all (\<lambda>(k, v). is_json v)
        (case originalConfig' (as_existing \<lparr>originalConfig = [(''machine'', JObj [(''Common'',
           JObj [(''System'', JObj [(''hostname'', JStr ''bigip'')])])])], tasks = [], mostRecentTask = JNull\<rparr>)
         of Some oc \<Rightarrow> oc | None \<Rightarrow> [])
   \<and> new_State sample_env (Some (as_existing \<lparr>originalConfig = [(''machine'', JObj [(''Common'',
           JObj [(''System'', JObj [(''hostname'', JStr ''bigip'')])])])], tasks = [], mostRecentTask = JNull\<rparr>)) ''t'' 0
       = Inr \<lparr>originalConfig = [(''machine'', JObj [(''Common'',
           JObj [(''System'', JObj [(''hostname'', JStr ''bigip'')])]), (''version'', JStr ''1.27.0-0'')])],
           tasks = [], mostRecentTask = JNull\<rparr>
   \<and> (\<exists>s'. new_State sample_env (Some (as_existing \<lparr>originalConfig = [(''machine'', JObj [(''Common'',
           JObj [(''System'', JObj [(''hostname'', JStr ''bigip'')])]), (''version'', JStr ''1.27.0-0'')])],
           tasks = [], mostRecentTask = JNull\<rparr>)) ''u'' 1 = Inr s'
         \<and> originalConfig s' = [(''machine'', JObj [(''Common'',
           JObj [(''System'', JObj [(''hostname'', JStr ''bigip'')])]), (''version'', JStr ''1.27.0-0'')])])"
proof -
  let ?es = "as_existing \<lparr>originalConfig = [(''machine'', JObj [(''Common'',
           JObj [(''System'', JObj [(''hostname'', JStr ''bigip'')])])])], tasks = [], mostRecentTask = JNull\<rparr>"
  let ?s = "\<lparr>originalConfig = [(''machine'', JObj [(''Common'',
           JObj [(''System'', JObj [(''hostname'', JStr ''bigip'')])]), (''version'', JStr ''1.27.0-0'')])],
           tasks = [], mostRecentTask = JNull\<rparr>"
  have h1: "versionCompare sample_env (JStr (doVersionStr sample_env)) (JStr (doVersionStr sample_env)) = Inr (Some 0)"
    by (simp add: sample_env_def sample_versionCompare_def)
  have h2: "\<not> js_lt (Some 0) (Some 0)"
    by (simp add: js_lt_def)
  have h3: "list_all (\<lambda>(k, v). is_json v) (case originalConfig' ?es of Some oc \<Rightarrow> oc | None \<Rightarrow> [])"
    by (simp add: as_existing_def task.defs existing_state.defs empty_object_def)
  have h4: "new_State sample_env (Some ?es) ''t'' 0 = Inr ?s"
    by (simp add: eval_defs)
  from migration_idempotent [OF h1 h2 h3 h4, of "''u''" 1] h1 h2 h3 h4 show ?thesis
    by simp
qed

subsection \<open>Stored declarations\<close>

lemma secret_values_spec_mask:
  "v \<in> set (secret_values secrets (spec_mask secrets marker d)) \<Longrightarrow> v = marker"
proof (induction secrets marker d rule: spec_mask.induct)
  case (1 secrets marker kvs)
  then show ?case by (fastforce split: if_splits)
next
  case (2 secrets marker xs)
  then show ?case by fastforce
qed auto

text \<open>
  Claim C8: after \<open>setDeclaration\<close> on an existing task, \<open>getDeclaration\<close> returns the masked
  declaration, in which every secret-bearing property (\<open>bindPassword\<close>, \<open>secret\<close>, ...)
  holds the redaction marker, not the raw value.
\<close>

theorem stored_declaration_masked:
  assumes "taskId \<in> set (getTaskIds s)"
  shows "\<exists>s'. setDeclaration (spec_mask secrets (JStr marker)) proto s taskId declaration = Inr s'
            \<and> getDeclaration proto s' taskId = Inr (spec_mask secrets (JStr marker) declaration)
            \<and> (\<forall>v\<in>set (secret_values secrets (spec_mask secrets (JStr marker) declaration)). v = JStr marker)"
proof -
  from assms obtain t where "map_of (tasks s) taskId = Some t"
    by (auto simp: getTaskIds_def mem_keys_iff simp del: set_map)
  then show ?thesis
    by (auto simp: setDeclaration_def getDeclaration_def lookup_def store_def AList.update_conv'
        dest: secret_values_spec_mask)
qed

theorem stored_declaration_masked_witness:
  "''a'' \<in> set (getTaskIds (snd (addTask empty_State ''a'' 0 0)))
   \<and> (\<exists>s'. setDeclaration (spec_mask [''bindPassword'', ''secret''] (JStr ''XXXXXX''))
              Object_prototype (snd (addTask empty_State ''a'' 0 0)) ''a''
              (JObj [(''Common'', JObj [(''myAuth'', JObj
                 [(''ldap'', JObj [(''bindDn'', JStr ''cn=admin''), (''bindPassword'', JStr ''hunter2'')]),
                  (''radius'', JObj [(''servers'', JObj [(''primary'',
                     JObj [(''server'', JStr ''1.2.3.4''), (''secret'', JStr ''s3cret'')])])])])])]) = Inr s'
        \<and> getDeclaration Object_prototype s' ''a'' =
            Inr (JObj [(''Common'', JObj [(''myAuth'', JObj
                 [(''ldap'', JObj [(''bindDn'', JStr ''cn=admin''), (''bindPassword'', JStr ''XXXXXX'')]),
                  (''radius'', JObj [(''servers'', JObj [(''primary'',
                     JObj [(''server'', JStr ''1.2.3.4''), (''secret'', JStr ''XXXXXX'')])])])])])]))"
proof -
  have h: "''a'' \<in> set (getTaskIds (snd (addTask empty_State ''a'' 0 0)))"
    by (simp add: eval_defs)
  from stored_declaration_masked [OF h, of "[''bindPassword'', ''secret'']" "''XXXXXX''" Object_prototype
      "JObj [(''Common'', JObj [(''myAuth'', JObj
                 [(''ldap'', JObj [(''bindDn'', JStr ''cn=admin''), (''bindPassword'', JStr ''hunter2'')]),
                  (''radius'', JObj [(''servers'', JObj [(''primary'',
                     JObj [(''server'', JStr ''1.2.3.4''), (''secret'', JStr ''s3cret'')])])])])])]"]
  obtain s' where "setDeclaration (spec_mask [''bindPassword'', ''secret''] (JStr ''XXXXXX''))
              Object_prototype (snd (addTask empty_State ''a'' 0 0)) ''a''
              (JObj [(''Common'', JObj [(''myAuth'', JObj
                 [(''ldap'', JObj [(''bindDn'', JStr ''cn=admin''), (''bindPassword'', JStr ''hunter2'')]),
                  (''radius'', JObj [(''servers'', JObj [(''primary'',
                     JObj [(''server'', JStr ''1.2.3.4''), (''secret'', JStr ''s3cret'')])])])])])]) = Inr s'"
    and "getDeclaration Object_prototype s' ''a'' = Inr (spec_mask [''bindPassword'', ''secret''] (JStr ''XXXXXX'')
              (JObj [(''Common'', JObj [(''myAuth'', JObj
                 [(''ldap'', JObj [(''bindDn'', JStr ''cn=admin''), (''bindPassword'', JStr ''hunter2'')]),
                  (''radius'', JObj [(''servers'', JObj [(''primary'',
                     JObj [(''server'', JStr ''1.2.3.4''), (''secret'', JStr ''s3cret'')])])])])])]))"
    by blast
  then show ?thesis using h by simp
qed

subsection \<open>Recorded errors\<close>

text \<open>
  Claim C9, as amended: on an existing task with a \<open>result\<close> object, \<open>updateResult\<close>
  appends to \<open>result.errors\<close>, so that every error recorded before is still there, in
  order; \<open>setErrors\<close> replaces the array by its argument, or empties it when called
  without one.
\<close>

theorem updateResult_accumulates:
  assumes "getTask proto s taskId = Own t" and "result t = Some r"
  shows "(\<exists>s'. updateResult proto s taskId c st m errs now = Inr s'
             \<and> getErrors proto s' taskId = Inr (if truthy errs then Some (appended (errors r) errs) else errors r)
             \<and> (\<forall>old. errors r = Some old \<longrightarrow> (\<exists>new. getErrors proto s' taskId = Inr (Some (old @ new)))))
       \<and> (\<exists>s'. setErrors proto s taskId (Some xs) = Inr s' \<and> getErrors proto s' taskId = Inr (Some xs))
       \<and> (\<exists>s'. setErrors proto s taskId None = Inr s'
             \<and> getErrors proto s' taskId = Inr (case errors r of None \<Rightarrow> None | Some old \<Rightarrow> Some []))"
proof -
  from assms(1) have "map_of (tasks s) taskId = Some t"
    by (rule getTask_Own)
  with assms(2) show ?thesis
    by (auto simp: updateResult_def setErrors_def getErrors_def lookup_def store_def appended_def
        AList.update_conv' Let_def split: option.splits)
qed

theorem updateResult_accumulates_witness:
  "getTask Object_prototype (snd (addTask empty_State ''a'' 0 0)) ''a'' =
      Own (empty_object\<lparr>id' := JStr ''a'', lastUpdate := Some (DateObj 0),
              result := Some empty_result, internalDeclaration := JObj []\<rparr>)
   \<and> result (empty_object\<lparr>id' := JStr ''a'', lastUpdate := Some (DateObj 0),
              result := Some empty_result, internalDeclaration := JObj []\<rparr>) = Some empty_result
   \<and> (\<exists>s'. updateResult Object_prototype (snd (addTask empty_State ''a'' 0 0)) ''a'' (JNum 422) (JStr ''ERROR'')
               (JStr ''invalid'') (JArr [JStr ''e1'', JStr ''e2'']) 1 = Inr s'
          \<and> getErrors Object_prototype s' ''a'' = Inr (Some [JStr ''e1'', JStr ''e2'']))
   \<and> (\<exists>s'. setErrors Object_prototype (snd (addTask empty_State ''a'' 0 0)) ''a'' (Some [JStr ''e3'']) = Inr s'
          \<and> getErrors Object_prototype s' ''a'' = Inr (Some [JStr ''e3'']))
   \<and> (\<exists>s'. setErrors Object_prototype (snd (addTask empty_State ''a'' 0 0)) ''a'' None = Inr s'
          \<and> getErrors Object_prototype s' ''a'' = Inr None)"
proof -
  let ?t = "empty_object\<lparr>id' := JStr ''a'', lastUpdate := Some (DateObj 0),
              result := Some empty_result, internalDeclaration := JObj []\<rparr>"
  have h1: "getTask Object_prototype (snd (addTask empty_State ''a'' 0 0)) ''a'' = Own ?t"
    by (simp add: eval_defs)
  have h2: "result ?t = Some empty_result"
    by simp
  from updateResult_accumulates [OF h1 h2, of "JNum 422" "JStr ''ERROR''" "JStr ''invalid''"
      "JArr [JStr ''e1'', JStr ''e2'']" 1 "[JStr ''e3'']"] h1 h2
  show ?thesis
    by (simp add: appended_def empty_result_def)
qed

text \<open>
  The claim as stated (a recorded error is never overwritten) fails for \<open>setErrors\<close>: the
  error recorded first is gone after it.
\<close>

theorem setErrors_overwrites_counterexample:
  "(case updateResult Object_prototype (snd (addTask empty_State ''a'' 0 0)) ''a'' JUndefined JUndefined JUndefined
           (JStr ''first error'') 1 of
      Inl e \<Rightarrow> False
    | Inr s1 \<Rightarrow>
        getErrors Object_prototype s1 ''a'' = Inr (Some [JStr ''first error''])
        \<and> (case setErrors Object_prototype s1 ''a'' (Some [JStr ''second error'']) of
             Inl e \<Rightarrow> False
           | Inr s2 \<Rightarrow> getErrors Object_prototype s2 ''a'' = Inr (Some [JStr ''second error''])))"
  by (simp add: eval_defs updateResult_def setErrors_def getErrors_def appended_def)

section \<open>Properties of the authentication handler\<close>

subsection \<open>Promises\<close>

lemma call_sel:
  "trace (call dev r t) = [\<lparr>issued = t, settled = t + fst (dev t r), req = r, failure = snd (dev t r)\<rparr>]"
  "finished (call dev r t) = t + fst (dev t r)"
  "rejected (call dev r t) = snd (dev t r)"
  by (simp_all add: call_def split: prod.splits)

lemma resolve_sel:
  "trace (Promise_resolve t) = []" "finished (Promise_resolve t) = t" "rejected (Promise_resolve t) = None"
  by (simp_all add: Promise_resolve_def)

lemma reject_sel:
  "trace (Promise_reject e t) = []" "finished (Promise_reject e t) = t" "rejected (Promise_reject e t) = Some e"
  by (simp_all add: Promise_reject_def)

lemma and_then_sel:
  "trace (and_then p k) = (if rejected p = None then trace p @ trace (k (finished p)) else trace p)"
  "finished (and_then p k) = (if rejected p = None then finished (k (finished p)) else finished p)"
  "rejected (and_then p k) = (if rejected p = None then rejected (k (finished p)) else rejected p)"
  by (auto simp: and_then_def Let_def split: option.splits)

lemma or_catch_reject: "or_catch p Promise_reject = p"
  by (cases "rejected p") (simp_all add: or_catch_def Promise_reject_def)

lemma earliest_None: "earliest ps = None \<longleftrightarrow> (\<forall>p\<in>set ps. rejected p = None)"
  by (induction ps) (auto split: option.splits)

lemma earliest_Some: "earliest ps = Some q \<Longrightarrow> q \<in> set ps \<and> rejected q \<noteq> None"
  by (induction ps arbitrary: q) (auto split: option.splits if_splits)



lemma all_sel:
  "trace (Promise_all t ps) = concat (map trace ps)"
  "rejected (Promise_all t ps) = None \<longleftrightarrow> (\<forall>p\<in>set ps. rejected p = None)"
  by (auto simp: Promise_all_def earliest_None split: option.splits dest: earliest_Some)


lemma all_rejected:
  assumes "rejected (Promise_all t ps) = Some e"
  shows "\<exists>p\<in>set ps. rejected p = Some e"
  using assms by (auto simp: Promise_all_def split: option.splits dest: earliest_Some)

lemma not_in_image: "\<forall>e\<in>S. f e \<noteq> d \<Longrightarrow> d \<notin> f ` S"
  by auto

lemmas handler_eval = handleRadius_def handleLdap_def handleTacacs_def handleSource_def
  handleRemoteUsersDefaults_def handleRemoteAuthRoles_def handleCert_def certPromise_def process_def
  call_def Promise_resolve_def Promise_reject_def and_then_def or_catch_def Promise_all_def
  simple_request_def radiusAggregate_def radiusDeleteSecondary_def radiusServer_def
  uploadCert_def createCert_def deleteCert_def ldapObj_def ldapOptions_def tacacsObj_def jget_def or_else_def
  sample_constants_def device_ok_def device_failing_def local_auth_def radius_auth_def
  ldap_auth_def tacacs_auth_def summary_def Let_def

subsection \<open>RADIUS\<close>

text \<open>
  Claim C3: when the RADIUS configuration declares a primary server and no secondary one,
  every delete that the step issues comes after the \<open>createOrModify\<close> of the aggregate
  object, whose \<open>servers\<close> list names the primary only, has completed successfully; when a
  secondary server is declared, the step issues no delete.
\<close>

theorem radius_delete_after_aggregate:
  assumes "radius auth = Some r" and "servers r = Some sv" and "primary sv = Some p"
  shows "(secondary sv = None \<longrightarrow>
            (\<forall>e\<in>set (trace (handleRadius K dev auth t)). verb (req e) = Delete \<longrightarrow>
               (\<exists>a\<in>set (trace (handleRadius K dev auth t)).
                   req a = radiusAggregate K r [PRIMARY_SERVER K]
                   \<and> failure a = None \<and> settled a \<le> issued e)))
       \<and> (secondary sv \<noteq> None \<longrightarrow>
            (\<forall>e\<in>set (trace (handleRadius K dev auth t)). verb (req e) \<noteq> Delete))"
proof (cases "secondary sv")
  case None
  let ?servers = "Promise_all t [call dev (simple_request CreateOrModify AuthRadiusServer
                                      (radiusServer (PRIMARY_SERVER K) p)) t]"
  let ?agg = "and_then ?servers (call dev (radiusAggregate K r [PRIMARY_SERVER K]))"
  have R: "handleRadius K dev auth t = and_then ?agg (call dev (radiusDeleteSecondary K))"
    using assms None by (simp add: handleRadius_def or_catch_reject)
  have "\<exists>a\<in>set (trace (handleRadius K dev auth t)).
           req a = radiusAggregate K r [PRIMARY_SERVER K] \<and> failure a = None \<and> settled a \<le> issued e"
    if e: "e \<in> set (trace (handleRadius K dev auth t))" and d: "verb (req e) = Delete" for e
  proof -
    have not_del: "verb (req x) \<noteq> Delete" if "x \<in> set (trace ?agg)" for x
      using that
      by (auto simp: and_then_sel all_sel call_sel simple_request_def radiusAggregate_def
          split: if_splits)
    from e d not_del have ok: "rejected ?agg = None"
      and e': "e \<in> set (trace (call dev (radiusDeleteSecondary K) (finished ?agg)))"
      by (auto simp: R and_then_sel [of ?agg] split: if_splits)
    from ok have ok1: "rejected ?servers = None"
      by (simp add: and_then_sel [of ?servers] split: if_splits)
    let ?a = "\<lparr>issued = finished ?servers,
               settled = finished ?servers + fst (dev (finished ?servers) (radiusAggregate K r [PRIMARY_SERVER K])),
               req = radiusAggregate K r [PRIMARY_SERVER K],
               failure = snd (dev (finished ?servers) (radiusAggregate K r [PRIMARY_SERVER K]))\<rparr>"
    have "?a \<in> set (trace (handleRadius K dev auth t))"
      using ok ok1 by (simp add: R and_then_sel [of ?agg] and_then_sel [of ?servers] call_sel)
    moreover have "failure ?a = None"
      using ok ok1 by (simp add: and_then_sel [of ?servers] call_sel)
    moreover have "settled ?a \<le> issued e"
      using e' ok1 by (simp add: call_sel and_then_sel [of ?servers])
    ultimately show ?thesis by (intro bexI [of _ ?a]) simp_all
  qed
  with None show ?thesis by simp
next
  case (Some s)
  have "verb (req e) \<noteq> Delete" if "e \<in> set (trace (handleRadius K dev auth t))" for e
    using that assms Some
    by (auto simp: handleRadius_def or_catch_reject and_then_sel all_sel call_sel resolve_sel
        simple_request_def radiusAggregate_def split: if_splits)
  with Some show ?thesis by simp
qed

lemma radius_run:
  "summary (handleRadius sample_constants device_ok radius_auth 0) =
     [(0, 1, CreateOrModify, AuthRadiusServer, None),
      (1, 2, CreateOrModify, AuthRadius, None),
      (2, 3, Delete, AuthRadiusServer, None)]"
  by (simp add: handler_eval)

theorem radius_delete_after_aggregate_witness:
  "radius radius_auth = Some \<lparr>serviceType = JStr ''default'',
       servers = Some \<lparr>primary = Some [(''server'', JStr ''1.2.3.4''), (''port'', JNum 1812)], secondary = None\<rparr>\<rparr>
   \<and> last (trace (handleRadius sample_constants device_ok radius_auth 0))
        \<in> set (trace (handleRadius sample_constants device_ok radius_auth 0))
   \<and> verb (req (last (trace (handleRadius sample_constants device_ok radius_auth 0)))) = Delete
   \<and> issued (last (trace (handleRadius sample_constants device_ok radius_auth 0))) = 2
   \<and> (\<exists>a\<in>set (trace (handleRadius sample_constants device_ok radius_auth 0)).
          req a = radiusAggregate sample_constants
                    \<lparr>serviceType = JStr ''default'',
                      servers = Some \<lparr>primary = Some [(''server'', JStr ''1.2.3.4''), (''port'', JNum 1812)],
                                      secondary = None\<rparr>\<rparr>
                    [PRIMARY_SERVER sample_constants]
          \<and> failure a = None
          \<and> settled a \<le> issued (last (trace (handleRadius sample_constants device_ok radius_auth 0))))
   \<and> radius radius_auth2 = Some \<lparr>serviceType = JStr ''default'',
       servers = Some \<lparr>primary = Some [(''server'', JStr ''1.2.3.4'')],
                       secondary = Some [(''server'', JStr ''1.2.3.5'')]\<rparr>\<rparr>
   \<and> length (trace (handleRadius sample_constants device_ok radius_auth2 0)) = 3
   \<and> Delete \<notin> (\<lambda>e. verb (req e)) ` set (trace (handleRadius sample_constants device_ok radius_auth2 0))"
proof -
  let ?sv = "\<lparr>primary = Some [(''server'', JStr ''1.2.3.4''), (''port'', JNum 1812)], secondary = None\<rparr>"
  let ?r = "\<lparr>serviceType = JStr ''default'', servers = Some ?sv\<rparr>"
  let ?sv2 = "\<lparr>primary = Some [(''server'', JStr ''1.2.3.4'')], secondary = Some [(''server'', JStr ''1.2.3.5'')]\<rparr>"
  let ?r2 = "\<lparr>serviceType = JStr ''default'', servers = Some ?sv2\<rparr>"
  let ?T = "trace (handleRadius sample_constants device_ok radius_auth 0)"
  have a1: "radius radius_auth = Some ?r"
    by (simp add: radius_auth_def local_auth_def)
  have a2: "servers ?r = Some ?sv" and a3: "primary ?sv = Some [(''server'', JStr ''1.2.3.4''), (''port'', JNum 1812)]"
    and a4: "secondary ?sv = None"
    by simp_all
  have b1: "radius radius_auth2 = Some ?r2"
    by (simp add: radius_auth2_def local_auth_def)
  have b2: "servers ?r2 = Some ?sv2" and b3: "primary ?sv2 = Some [(''server'', JStr ''1.2.3.4'')]"
    and b4: "secondary ?sv2 \<noteq> None"
    by simp_all
  have m: "last ?T \<in> set ?T" and d: "verb (req (last ?T)) = Delete" and i: "issued (last ?T) = 2"
    by (simp_all add: handler_eval)
  have len: "length (trace (handleRadius sample_constants device_ok radius_auth2 0)) = 3"
    by (simp add: handler_eval radius_auth2_def)
  note A = radius_delete_after_aggregate [OF a1 a2 a3, of sample_constants device_ok 0]
  have c1: "\<exists>a\<in>set ?T. req a = radiusAggregate sample_constants ?r [PRIMARY_SERVER sample_constants]
              \<and> failure a = None \<and> settled a \<le> issued (last ?T)"
    by (rule A [THEN conjunct1, THEN mp, OF a4, THEN bspec, OF m, THEN mp, OF d])
  note B = radius_delete_after_aggregate [OF b1 b2 b3, of sample_constants device_ok 0]
  have "\<forall>e\<in>set (trace (handleRadius sample_constants device_ok radius_auth2 0)). verb (req e) \<noteq> Delete"
    by (rule B [THEN conjunct2, THEN mp, OF b4])
  then have c2: "Delete \<notin> (\<lambda>e. verb (req e)) ` set (trace (handleRadius sample_constants device_ok radius_auth2 0))"
    by (rule not_in_image)
  from a1 m d i c1 b1 len c2 show ?thesis by (intro conjI)
qed

subsection \<open>LDAP\<close>






lemma ldap_run_failing:
  "summary (handleLdap sample_constants (device_failing Uploads) ldap_auth 0) =
     [(0, 1, Create, Uploads, Some (Error ''rejected by the device''))]
   \<and> rejected (handleLdap sample_constants (device_failing Uploads) ldap_auth 0)
       = Some (Error ''rejected by the device'')"
  by (simp add: handler_eval)


subsection \<open>Failures\<close>

text \<open>
  Claim C5 (a failed device call of any step rejects \<open>process()\<close> with that failure),
  evaluated where the code departs from it. The declaration configures TACACS and the device
  rejects the TACACS upsert: \<open>process()\<close> goes on to the next step and is fulfilled. With a
  declaration that configures RADIUS and a device that rejects the aggregate RADIUS object,
  \<open>process()\<close> is rejected with the device's error.
\<close>

theorem tacacs_failure_swallowed:
  "rejected (process sample_constants (device_failing AuthTacacs)
       \<lparr>Common = Some \<lparr>RemoteAuthRole = None, Authentication = Some tacacs_auth\<rparr>\<rparr> 0) = None
   \<and> summary (process sample_constants (device_failing AuthTacacs)
       \<lparr>Common = Some \<lparr>RemoteAuthRole = None, Authentication = Some tacacs_auth\<rparr>\<rparr> 0) =
       [(0, 1, CreateOrModify, AuthTacacs, Some (Error ''rejected by the device'')),
        (1, 2, Modify, AuthSource, None)]
   \<and> rejected (process sample_constants (device_failing AuthRadius)
       \<lparr>Common = Some \<lparr>RemoteAuthRole = None, Authentication = Some radius_auth\<rparr>\<rparr> 0)
       = Some (Error ''rejected by the device'')"
  by (simp add: handler_eval)

lemma rf_call: "reports_failures (call dev r t)"
  by (simp add: reports_failures_def call_sel)

lemma rf_resolve: "reports_failures (Promise_resolve t)"
  by (simp add: reports_failures_def resolve_sel)

lemma rf_reject: "reports_failures (Promise_reject e t)"
  by (simp add: reports_failures_def reject_sel)

lemma rf_and_then:
  assumes "reports_failures p" and "\<And>t'. reports_failures (k t')"
  shows "reports_failures (and_then p k)"
  using assms by (auto simp: reports_failures_def and_then_sel split: if_splits)

lemma rf_all:
  assumes "\<And>p. p \<in> set ps \<Longrightarrow> reports_failures p"
  shows "reports_failures (Promise_all t ps)"
  using assms by (auto simp: reports_failures_def all_sel)

lemma rf_handleRemoteAuthRoles: "reports_failures (handleRemoteAuthRoles dev d t)"
  by (auto simp: handleRemoteAuthRoles_def intro!: rf_resolve rf_all rf_call split: option.splits)

lemma rf_handleRadius: "reports_failures (handleRadius K dev auth t)"
  by (auto simp: handleRadius_def or_catch_reject Let_def
      intro!: rf_resolve rf_all rf_call rf_and_then split: option.splits)

lemma rf_handleCert: "reports_failures (handleCert K dev n c p t)"
  by (auto simp: handleCert_def intro!: rf_call rf_and_then)

lemma rf_handleLdap: "reports_failures (handleLdap K dev auth t)"
  by (auto simp: handleLdap_def or_catch_reject Let_def certPromise_def
      intro!: rf_resolve rf_reject rf_all rf_call rf_and_then rf_handleCert split: sum.splits)

lemma rf_handleSource: "reports_failures (handleSource dev auth t)"
  by (simp add: handleSource_def rf_call)

lemma rf_handleRemoteUsersDefaults: "reports_failures (handleRemoteUsersDefaults dev auth t)"
  by (simp add: handleRemoteUsersDefaults_def rf_call rf_resolve)

lemma handleTacacs_path:
  "e \<in> set (trace (handleTacacs K dev auth t)) \<Longrightarrow> path (req e) = AuthTacacs"
  by (auto simp: handleTacacs_def or_catch_def call_sel resolve_sel simple_request_def Let_def
      split: if_splits option.splits)

text \<open>
  The steps other than TACACS do report their failures: when \<open>process()\<close> is fulfilled, a
  call that failed can only be the TACACS upsert.
\<close>

theorem process_reports_other_failures:
  assumes "rejected (process K dev d t) = None"
    and "e \<in> set (trace (process K dev d t))"
    and "failure e \<noteq> None"
  shows "path (req e) = AuthTacacs"
proof (cases "case Common d of None \<Rightarrow> None | Some c \<Rightarrow> Authentication c")
  case None
  with assms rf_handleRemoteAuthRoles [of dev d t] show ?thesis
    by (simp add: process_def reports_failures_def)
next
  case (Some auth)
  let ?p1 = "handleRemoteAuthRoles dev d t"
  let ?p2 = "and_then ?p1 (handleRadius K dev auth)"
  let ?p3 = "and_then ?p2 (handleTacacs K dev auth)"
  let ?p4 = "and_then ?p3 (handleLdap K dev auth)"
  let ?p5 = "and_then ?p4 (handleSource dev auth)"
  have P: "process K dev d t = and_then ?p5 (handleRemoteUsersDefaults dev auth)"
    using Some by (simp add: process_def)
  from assms(1) have r5: "rejected ?p5 = None"
    by (simp add: P and_then_sel [of ?p5] split: if_splits)
  then have r4: "rejected ?p4 = None"
    by (simp add: and_then_sel [of ?p4] split: if_splits)
  then have r3: "rejected ?p3 = None"
    by (simp add: and_then_sel [of ?p3] split: if_splits)
  then have r2: "rejected ?p2 = None"
    by (simp add: and_then_sel [of ?p2] split: if_splits)
  then have r1: "rejected ?p1 = None"
    by (simp add: and_then_sel [of ?p1] split: if_splits)
  from assms(1) r5 have s6: "rejected (handleRemoteUsersDefaults dev auth (finished ?p5)) = None"
    by (simp add: P and_then_sel [of ?p5])
  from r5 r4 have s5: "rejected (handleSource dev auth (finished ?p4)) = None"
    by (simp add: and_then_sel [of ?p4])
  from r4 r3 have s4: "rejected (handleLdap K dev auth (finished ?p3)) = None"
    by (simp add: and_then_sel [of ?p3])
  from r2 r1 have s2: "rejected (handleRadius K dev auth (finished ?p1)) = None"
    by (simp add: and_then_sel [of ?p1])
  from assms(2) r5 r4 r3 r2 r1
  consider "e \<in> set (trace ?p1)"
    | "e \<in> set (trace (handleRadius K dev auth (finished ?p1)))"
    | "e \<in> set (trace (handleTacacs K dev auth (finished ?p2)))"
    | "e \<in> set (trace (handleLdap K dev auth (finished ?p3)))"
    | "e \<in> set (trace (handleSource dev auth (finished ?p4)))"
    | "e \<in> set (trace (handleRemoteUsersDefaults dev auth (finished ?p5)))"
    by (auto simp: P and_then_sel [of ?p5] and_then_sel [of ?p4] and_then_sel [of ?p3]
        and_then_sel [of ?p2] and_then_sel [of ?p1])
  then show ?thesis
  proof cases
    case 1
    with r1 rf_handleRemoteAuthRoles [of dev d t] assms(3) show ?thesis
      by (auto simp: reports_failures_def)
  next
    case 2
    with s2 rf_handleRadius [of K dev auth "finished ?p1"] assms(3) show ?thesis
      by (auto simp: reports_failures_def)
  next
    case 3
    then show ?thesis by (rule handleTacacs_path)
  next
    case 4
    with s4 rf_handleLdap [of K dev auth "finished ?p3"] assms(3) show ?thesis
      by (auto simp: reports_failures_def)
  next
    case 5
    with s5 rf_handleSource [of dev auth "finished ?p4"] assms(3) show ?thesis
      by (auto simp: reports_failures_def)
  next
    case 6
    with s6 rf_handleRemoteUsersDefaults [of dev auth "finished ?p5"] assms(3) show ?thesis
      by (auto simp: reports_failures_def)
  qed
qed

theorem process_reports_other_failures_witness:
  "rejected (process sample_constants (device_failing AuthTacacs)
       \<lparr>Common = Some \<lparr>RemoteAuthRole = None, Authentication = Some tacacs_auth\<rparr>\<rparr> 0) = None
   \<and> hd (trace (process sample_constants (device_failing AuthTacacs)
       \<lparr>Common = Some \<lparr>RemoteAuthRole = None, Authentication = Some tacacs_auth\<rparr>\<rparr> 0))
      \<in> set (trace (process sample_constants (device_failing AuthTacacs)
       \<lparr>Common = Some \<lparr>RemoteAuthRole = None, Authentication = Some tacacs_auth\<rparr>\<rparr> 0))
   \<and> failure (hd (trace (process sample_constants (device_failing AuthTacacs)
       \<lparr>Common = Some \<lparr>RemoteAuthRole = None, Authentication = Some tacacs_auth\<rparr>\<rparr> 0))) \<noteq> None
   \<and> path (req (hd (trace (process sample_constants (device_failing AuthTacacs)
       \<lparr>Common = Some \<lparr>RemoteAuthRole = None, Authentication = Some tacacs_auth\<rparr>\<rparr> 0)))) = AuthTacacs"
proof -
  let ?P = "process sample_constants (device_failing AuthTacacs)
       \<lparr>Common = Some \<lparr>RemoteAuthRole = None, Authentication = Some tacacs_auth\<rparr>\<rparr> 0"
  have h1: "rejected ?P = None" and h2: "hd (trace ?P) \<in> set (trace ?P)"
    and h3: "failure (hd (trace ?P)) \<noteq> None"
    by (simp_all add: handler_eval)
  from h1 h2 h3 process_reports_other_failures [OF h1 h2 h3] show ?thesis
    by (intro conjI)
qed


end
